theory Spec2Isabelle
  imports Complex_Main
begin

section \<open>Python values used by the pipeline\<close>

text \<open>
  The scripts work on CSV rows, which Python's \<open>csv.DictReader\<close> delivers as
  dictionaries from column names to cell strings. A row is a partial map; a string is a
  list of characters. Characters are those of the 8-bit character type: the model covers
  ASCII text (and leaves every non-ASCII character unchanged under \<open>upper\<close>).
\<close>

type_synonym row = "string \<rightharpoonup> string"

datatype py_error = ValueError | IndexError | OverflowError

text \<open>\<open>row.get(key, default)\<close>\<close>

definition row_get :: "row \<Rightarrow> string \<Rightarrow> string \<Rightarrow> string" where
  "row_get r k d = (case r k of Some v \<Rightarrow> v | None \<Rightarrow> d)"

subsection \<open>String methods\<close>

text \<open>\<open>str.upper()\<close> on ASCII letters.\<close>

definition upper_char :: "char \<Rightarrow> char" where
  "upper_char c =
     (case map_of (zip ''abcdefghijklmnopqrstuvwxyz'' ''ABCDEFGHIJKLMNOPQRSTUVWXYZ'') c of
        Some u \<Rightarrow> u
      | None \<Rightarrow> c)"

definition upper :: "string \<Rightarrow> string" where
  "upper s = map upper_char s"

text \<open>
  The characters \<open>str.strip()\<close> and \<open>str.split()\<close> treat as whitespace: space, tab,
  line feed, vertical tab, form feed, carriage return, the four separators
  \<open>0x1C\<close> to \<open>0x1F\<close>, next-line and no-break space.
\<close>

definition is_space :: "char \<Rightarrow> bool" where
  "is_space c = (c \<in> set [CHR '' '', CHR 0x09, CHR 0x0A, CHR 0x0B, CHR 0x0C, CHR 0x0D,
                           CHR 0x1C, CHR 0x1D, CHR 0x1E, CHR 0x1F, CHR 0x85, CHR 0xA0])"

definition lstrip :: "string \<Rightarrow> string" where
  "lstrip s = dropWhile is_space s"

definition rstrip :: "string \<Rightarrow> string" where
  "rstrip s = rev (dropWhile is_space (rev s))"

definition strip :: "string \<Rightarrow> string" where
  "strip s = rstrip (lstrip s)"

text \<open>\<open>text.startswith(p)\<close>, \<open>text.endswith(p)\<close> and \<open>kw in text\<close>.\<close>

fun startswith :: "string \<Rightarrow> string \<Rightarrow> bool" where
  "startswith s [] = True"
| "startswith [] (p # ps) = False"
| "startswith (c # cs) (p # ps) = (c = p \<and> startswith cs ps)"

definition endswith :: "string \<Rightarrow> string \<Rightarrow> bool" where
  "endswith s p = startswith (rev s) (rev p)"

fun contains :: "string \<Rightarrow> string \<Rightarrow> bool" where
  "contains [] kw = (kw = [])"
| "contains (c # cs) kw = (startswith (c # cs) kw \<or> contains cs kw)"

text \<open>\<open>s.split()\<close>: the maximal runs of non-whitespace characters, in order.\<close>

fun split_acc :: "string \<Rightarrow> string \<Rightarrow> string list" where
  "split_acc w [] = (if w = [] then [] else [w])"
| "split_acc w (c # cs) =
     (if is_space c then (if w = [] then split_acc [] cs else w # split_acc [] cs)
      else split_acc (w @ [c]) cs)"

definition split :: "string \<Rightarrow> string list" where
  "split s = split_acc [] s"

text \<open>\<open>sep.join(parts)\<close>\<close>

fun join :: "string \<Rightarrow> string list \<Rightarrow> string" where
  "join sep [] = []"
| "join sep [x] = x"
| "join sep (x # y # ys) = x @ sep @ join sep (y # ys)"

text \<open>\<open>s.replace(c, "")\<close> for a single character \<open>c\<close>.\<close>

definition remove_char :: "char \<Rightarrow> string \<Rightarrow> string" where
  "remove_char c s = filter (\<lambda>x. x \<noteq> c) s"

subsection \<open>Integers and their decimal text\<close>

text \<open>\<open>str(n)\<close> for an integer.\<close>

fun str_nat :: "nat \<Rightarrow> string" where
  "str_nat n = (if n < 10 then [''0123456789'' ! n]
                else str_nat (n div 10) @ [''0123456789'' ! (n mod 10)])"

declare str_nat.simps [simp del]

definition str_int :: "int \<Rightarrow> string" where
  "str_int i = (if i < 0 then CHR ''-'' # str_nat (nat (- i)) else str_nat (nat i))"

text \<open>
  \<open>int(s)\<close> for a string: surrounding whitespace is dropped, one sign is allowed, then
  decimal digits, where single underscores may stand between digits. Anything else raises
  \<open>ValueError\<close>, which is the value \<open>None\<close> here. The flag of \<open>int_digits\<close> says whether a
  digit has just been read (so that an underscore or the end may follow).
\<close>

definition digit_val :: "char \<Rightarrow> nat option" where
  "digit_val c = map_of (zip ''0123456789'' [0, 1, 2, 3, 4, 5, 6, 7, 8, 9]) c"

fun int_digits :: "bool \<Rightarrow> nat \<Rightarrow> string \<Rightarrow> nat option" where
  "int_digits after a [] = (if after then Some a else None)"
| "int_digits after a (c # cs) =
     (if c = CHR ''_'' then (if after then int_digits False a cs else None)
      else (case digit_val c of
              None \<Rightarrow> None
            | Some d \<Rightarrow> int_digits True (10 * a + d) cs))"

definition py_int :: "string \<Rightarrow> int option" where
  "py_int s =
     (case strip s of
        [] \<Rightarrow> None
      | c # cs \<Rightarrow>
          if c = CHR ''-'' then map_option (\<lambda>n. - int n) (int_digits False 0 cs)
          else if c = CHR ''+'' then map_option int (int_digits False 0 cs)
          else map_option int (int_digits False 0 (c # cs)))"

section \<open>Entity role classification (scripts/classify\_entity\_roles.py)\<close>

definition INVESTOR_KEYWORDS :: "string list" where
  "INVESTOR_KEYWORDS = [''INVEST'', ''CAPITAL'', ''HOLDINGS'', ''EQUITY'', ''PARTNERS'', ''GROUP'',
     ''VENTURES'', ''PROPERTIES'', ''REAL ESTATE'', ''DEVELOPMENT'']"

definition TRUST_KEYWORDS :: "string list" where
  "TRUST_KEYWORDS = [''TRUST'', ''ESTATE'', ''FAMILY TRUST'', ''LIVING TRUST'']"

definition LEGAL_KEYWORDS :: "string list" where
  "LEGAL_KEYWORDS = [''LAW'', ''ATTORNEY'', ''ESQ'', ''LEGAL'', ''COUNSEL'', ''PLLC'']"

definition ROLE_BANK_KEYWORDS :: "string list" where
  \<comment> \<open>\<open>BANK_KEYWORDS\<close> of classify\_entity\_roles.py; filter\_notes.py has a list of the same
      name, kept below as \<open>BANK_KEYWORDS\<close>.\<close>
  "ROLE_BANK_KEYWORDS = [''BANK'', ''N.A.'', ''CREDIT UNION'', ''MORTGAGE'', ''SERVICING'',
     ''FNMA'', ''FREDDIE'', ''FHA'', ''VA'', ''USDA'']"

definition GOV_KEYWORDS :: "string list" where
  "GOV_KEYWORDS = [''CITY OF'', ''COUNTY OF'', ''STATE OF'', ''AUTHORITY'', ''DISTRICT'']"

definition UTILITY_KEYWORDS :: "string list" where
  "UTILITY_KEYWORDS = [''UTILITY'', ''ELECTRIC'', ''WATER'', ''SEWER'', ''FOUNDATION'', ''CHURCH'']"

definition get_entity_name :: "row \<Rightarrow> string" where
  "get_entity_name r =
     (let full_name = strip (row_get r ''full_name'' '''');
          company_name = strip (row_get r ''company_name'' '''')
      in if company_name \<noteq> [] then company_name else full_name)"

definition contains_keyword :: "string \<Rightarrow> string list \<Rightarrow> bool" where
  "contains_keyword text keywords =
     (if text = [] then False else list_ex (contains (upper text)) keywords)"

text \<open>
  \<open>matched = [kw for kw in KEYWORDS if kw in entity_name_upper]\<close> followed by
  \<open>matched[0]\<close>, which raises \<open>IndexError\<close> on an empty list.
\<close>

definition first_matched :: "string list \<Rightarrow> string \<Rightarrow> py_error + string" where
  "first_matched keywords entity_name_upper =
     (case filter (contains entity_name_upper) keywords of
        [] \<Rightarrow> Inl IndexError
      | kw # _ \<Rightarrow> Inr kw)"

definition keyword_result :: "string \<Rightarrow> string \<Rightarrow> string list \<Rightarrow> string \<Rightarrow> py_error + string \<times> string" where
  \<comment> \<open>\<open>return (role, f"<label>{matched[0]}")\<close>\<close>
  "keyword_result role label keywords entity_name_upper =
     (case first_matched keywords entity_name_upper of
        Inl e \<Rightarrow> Inl e
      | Inr kw \<Rightarrow> Inr (role, label @ kw))"

definition entity_indicators :: "string list" where
  "entity_indicators = [''LLC'', ''INC'', ''CORP'', ''LTD'', ''LP'', ''LLP'', ''PC'', ''PA'', ''CO'', ''COMPANY'']"

definition classify_entity_role :: "row \<Rightarrow> py_error + string \<times> string" where
  "classify_entity_role r =
     (let entity_name = get_entity_name r in
      if entity_name = [] then Inr (''UNKNOWN'', ''no name provided'')
      else
        let entity_name_upper = upper entity_name in
        if contains_keyword entity_name ROLE_BANK_KEYWORDS
          then keyword_result ''BANK_INSTITUTION'' ''bank keyword: '' ROLE_BANK_KEYWORDS entity_name_upper
        else if contains_keyword entity_name GOV_KEYWORDS
          then keyword_result ''GOVERNMENT_ENTITY'' ''government keyword: '' GOV_KEYWORDS entity_name_upper
        else if contains_keyword entity_name UTILITY_KEYWORDS
          then keyword_result ''UTILITY_OR_NONPROFIT'' ''utility keyword: '' UTILITY_KEYWORDS entity_name_upper
        else if contains_keyword entity_name TRUST_KEYWORDS
          then keyword_result ''TRUST_ENTITY'' ''trust keyword: '' TRUST_KEYWORDS entity_name_upper
        else if contains_keyword entity_name INVESTOR_KEYWORDS
          then keyword_result ''INVESTOR_ENTITY'' ''investor keyword: '' INVESTOR_KEYWORDS entity_name_upper
        else if contains_keyword entity_name LEGAL_KEYWORDS
          then keyword_result ''LEGAL_ENTITY'' ''legal keyword: '' LEGAL_KEYWORDS entity_name_upper
        else
          let owner_type = upper (row_get r ''owner_type'' '''');
              has_entity_indicator = list_ex (contains entity_name_upper) entity_indicators
          in
            if owner_type = ''PERSON'' \<and> \<not> has_entity_indicator
               \<and> \<not> contains_keyword entity_name (INVESTOR_KEYWORDS @ TRUST_KEYWORDS @ LEGAL_KEYWORDS)
              then Inr (''INDIVIDUAL_PERSON'', ''owner_type=PERSON, no entity keywords'')
            else if \<not> has_entity_indicator
               \<and> length (split entity_name) \<le> 5
               \<and> \<not> contains_keyword entity_name (INVESTOR_KEYWORDS @ TRUST_KEYWORDS @ LEGAL_KEYWORDS)
               \<and> owner_type = ''PERSON''
              then Inr (''INDIVIDUAL_PERSON'', ''appears to be individual person'')
            else Inr (''UNKNOWN'', ''no matching keywords or patterns''))"

text \<open>The score modifier of a role; \<open>None\<close> forces exclusion.\<close>

definition get_role_score_modifier :: "string \<Rightarrow> int option" where
  "get_role_score_modifier entity_role =
     (case map_of [(''INVESTOR_ENTITY'', Some 20), (''TRUST_ENTITY'', Some 15),
                   (''INDIVIDUAL_PERSON'', Some 10), (''LEGAL_ENTITY'', Some 5),
                   (''BANK_INSTITUTION'', None), (''GOVERNMENT_ENTITY'', None),
                   (''UTILITY_OR_NONPROFIT'', None), (''UNKNOWN'', Some 0)] entity_role of
        Some m \<Rightarrow> m
      | None \<Rightarrow> Some 0)"

definition is_excluded_role :: "string \<Rightarrow> bool" where
  "is_excluded_role entity_role =
     (entity_role \<in> set [''BANK_INSTITUTION'', ''GOVERNMENT_ENTITY'', ''UTILITY_OR_NONPROFIT''])"

definition apply_role_modifier :: "int \<Rightarrow> int option \<Rightarrow> int" where
  "apply_role_modifier base_score modifier =
     (case modifier of
        None \<Rightarrow> - 1
      | Some m \<Rightarrow> min 100 (max 0 (base_score + m)))"

definition get_output_file_for_role :: "string \<Rightarrow> string" where
  "get_output_file_for_role entity_role =
     (case map_of [(''INVESTOR_ENTITY'', ''note_broker_investor_priority.csv''),
                   (''TRUST_ENTITY'', ''note_broker_investor_priority.csv''),
                   (''INDIVIDUAL_PERSON'', ''note_broker_individual_priority.csv''),
                   (''LEGAL_ENTITY'', ''note_broker_legal_review.csv''),
                   (''BANK_INSTITUTION'', ''note_broker_excluded_entities.csv''),
                   (''GOVERNMENT_ENTITY'', ''note_broker_excluded_entities.csv''),
                   (''UTILITY_OR_NONPROFIT'', ''note_broker_excluded_entities.csv''),
                   (''UNKNOWN'', ''note_broker_individual_priority.csv'')] entity_role of
        Some f \<Rightarrow> f
      | None \<Rightarrow> ''note_broker_individual_priority.csv'')"

section \<open>Floating-point values and the run-time environment\<close>

text \<open>
  A Python float is a finite value (always a rational number), an infinity or not-a-number.
  Comparisons are exact; every comparison with not-a-number is false.
\<close>

datatype pyfloat = Finite rat | PosInf | NegInf | NaN

fun flt :: "pyfloat \<Rightarrow> pyfloat \<Rightarrow> bool" where
  "flt NaN y = False"
| "flt x NaN = False"
| "flt (Finite a) (Finite b) = (a < b)"
| "flt (Finite a) PosInf = True"
| "flt (Finite a) NegInf = False"
| "flt PosInf y = False"
| "flt NegInf (Finite b) = True"
| "flt NegInf PosInf = True"
| "flt NegInf NegInf = False"

fun fle :: "pyfloat \<Rightarrow> pyfloat \<Rightarrow> bool" where
  "fle NaN y = False"
| "fle x NaN = False"
| "fle (Finite a) (Finite b) = (a \<le> b)"
| "fle (Finite a) PosInf = True"
| "fle (Finite a) NegInf = False"
| "fle PosInf PosInf = True"
| "fle PosInf y = False"
| "fle NegInf y = True"

text \<open>Truth value of an optional float: \<open>None\<close> and zero are false, all else is true.\<close>

definition truthy :: "pyfloat option \<Rightarrow> bool" where
  "truthy x = (case x of None \<Rightarrow> False | Some f \<Rightarrow> f \<noteq> Finite 0)"

text \<open>\<open>int(x)\<close> for a float: truncation towards zero; infinities and not-a-number raise.\<close>

definition int_of_float :: "pyfloat \<Rightarrow> py_error + int" where
  "int_of_float x =
     (case x of
        Finite q \<Rightarrow> Inr (if 0 \<le> q then \<lfloor>q\<rfloor> else \<lceil>q\<rceil>)
      | PosInf \<Rightarrow> Inl OverflowError
      | NegInf \<Rightarrow> Inl OverflowError
      | NaN \<Rightarrow> Inl ValueError)"

text \<open>
  What the scripts take from the Python run time and the clock is a parameter of the model,
  so that every theorem holds whatever these functions return:
  \<^item> \<open>py_float\<close>: \<open>float(s)\<close>, with \<open>None\<close> for \<open>ValueError\<close>;
  \<^item> \<open>float_add\<close>, \<open>float_sub\<close>: rounded floating-point addition and subtraction;
  \<^item> \<open>date_age\<close>: for a stripped, non-blank date text, the age in years
    (\<open>get_recording_age_years\<close>, days since the date over 365.25, at the time of the run) of the
    date that \<open>parse_date\<close> reads with the first of its seven formats that fits, \<open>None\<close> when
    none fits;
  \<^item> \<open>float_str\<close>, \<open>float_fmt_1f\<close>, \<open>float_fmt_comma\<close>: the texts of \<open>f"{x}"\<close>,
    \<open>f"{x:.1f}"\<close> and \<open>f"{x:,.0f}"\<close>.
\<close>

record pyenv =
  py_float :: "string \<Rightarrow> pyfloat option"
  float_add :: "pyfloat \<Rightarrow> pyfloat \<Rightarrow> pyfloat"
  float_sub :: "pyfloat \<Rightarrow> pyfloat \<Rightarrow> pyfloat"
  date_age :: "string \<Rightarrow> pyfloat option"
  float_str :: "pyfloat \<Rightarrow> string"
  float_fmt_1f :: "pyfloat \<Rightarrow> string"
  float_fmt_comma :: "pyfloat \<Rightarrow> string"

text \<open>\<open>f"{n:,}"\<close> for an integer: decimal digits in groups of three.\<close>

fun commas_rev :: "string \<Rightarrow> string" where
  "commas_rev (a # b # c # d # ds) = a # b # c # CHR '','' # commas_rev (d # ds)"
| "commas_rev ds = ds"

definition fmt_int_comma :: "int \<Rightarrow> string" where
  "fmt_int_comma i =
     (if i < 0 then CHR ''-'' # rev (commas_rev (rev (str_nat (nat (- i)))))
      else rev (commas_rev (rev (str_nat (nat i)))))"

text \<open>
  An environment to run examples in. It reads integer literals as floats, adds and
  subtracts exactly, prints integral values, and knows no date; the examples use only
  cells on which Python computes the same.
\<close>

fun exact_add :: "pyfloat \<Rightarrow> pyfloat \<Rightarrow> pyfloat" where
  "exact_add (Finite a) (Finite b) = Finite (a + b)"
| "exact_add NaN y = NaN"
| "exact_add x NaN = NaN"
| "exact_add PosInf NegInf = NaN"
| "exact_add NegInf PosInf = NaN"
| "exact_add PosInf y = PosInf"
| "exact_add NegInf y = NegInf"
| "exact_add (Finite a) y = y"

fun negate :: "pyfloat \<Rightarrow> pyfloat" where
  "negate (Finite a) = Finite (- a)"
| "negate PosInf = NegInf"
| "negate NegInf = PosInf"
| "negate NaN = NaN"

definition integral_str :: "string \<Rightarrow> pyfloat \<Rightarrow> string" where
  "integral_str suffix x =
     (case x of
        Finite q \<Rightarrow> str_int \<lfloor>q\<rfloor> @ suffix
      | PosInf \<Rightarrow> ''inf''
      | NegInf \<Rightarrow> ''-inf''
      | NaN \<Rightarrow> ''nan'')"

definition integral_comma :: "pyfloat \<Rightarrow> string" where
  "integral_comma x =
     (case x of
        Finite q \<Rightarrow> fmt_int_comma \<lfloor>q\<rfloor>
      | PosInf \<Rightarrow> ''inf''
      | NegInf \<Rightarrow> ''-inf''
      | NaN \<Rightarrow> ''nan'')"

definition example_env :: pyenv where
  "example_env =
     \<lparr> py_float = (\<lambda>s. map_option (\<lambda>i. Finite (of_int i)) (py_int s)),
       float_add = exact_add,
       float_sub = (\<lambda>x y. exact_add x (negate y)),
       date_age = (\<lambda>s. None),
       float_str = integral_str ''.0'',
       float_fmt_1f = integral_str ''.0'',
       float_fmt_comma = integral_comma \<rparr>"

section \<open>Lead filter for recorder rows (scripts/filter\_notes.py)\<close>

definition MAX_LOAN_AMOUNT :: int where "MAX_LOAN_AMOUNT = 500000"

definition MIN_AGE_YEARS :: int where "MIN_AGE_YEARS = 3"

definition MAX_AGE_YEARS :: int where "MAX_AGE_YEARS = 20"

definition BANK_KEYWORDS :: "string list" where
  "BANK_KEYWORDS = [
     ''BANK'', ''N.A.'', ''MORTGAGE'', ''SERVICING'',
     ''WELLS FARGO'', ''WELLS'',
     ''JPMORGAN'', ''JP MORGAN'', ''CHASE'',
     ''BANK OF AMERICA'', ''BANK OF AMER'', ''BOA'',
     ''CITIBANK'', ''CITI'',
     ''U.S. BANK'', ''US BANK'', ''USBANK'',
     ''PNC'',
     ''TRUIST'',
     ''CAPITAL ONE'', ''CAPITALONE'',
     ''REGIONS BANK'', ''REGIONS'',
     ''SUNTRUST'',
     ''BB&T'', ''BBT'',
     ''TD BANK'',
     ''HSBC'',
     ''BANK OF NEW YORK'', ''BNY'',
     ''DEUTSCHE BANK'',
     ''BARCLAYS'',
     ''MORGAN STANLEY'',
     ''GOLDMAN SACHS'',
     ''MERRILL LYNCH'',
     ''FIDELITY'',
     ''VANGUARD'',
     ''FEDERAL HOME LOAN'', ''FHLMC'', ''FREDDIE MAC'',
     ''FANNIE MAE'', ''FNMA'',
     ''GINNIE MAE'', ''GNMA'',
     ''FHA'', ''VA LOAN'', ''USDA'']"

definition DISCARD_DOC_TYPES :: "string list" where
  "DISCARD_DOC_TYPES = [''RELEASE'', ''SATISFACTION'', ''RELEASE OF LIEN'',
     ''SATISFACTION OF MORTGAGE'', ''CANCELLATION'']"

text \<open>
  \<open>parse_amount\<close>: blank text is \<open>None\<close>; otherwise the text is stripped, the characters
  \<open>$\<close>, comma and space are removed, and \<open>float\<close> reads the rest (\<open>ValueError\<close> gives
  \<open>None\<close>). The copy in note\_broker\_refine.py is the same.
\<close>

definition parse_amount :: "pyenv \<Rightarrow> string \<Rightarrow> pyfloat option" where
  "parse_amount env amount_str =
     (if amount_str = [] \<or> strip amount_str = [] then None
      else py_float env
             (remove_char CHR '' '' (remove_char CHR '','' (remove_char CHR ''$'' (strip amount_str)))))"

definition parse_date_age :: "pyenv \<Rightarrow> string \<Rightarrow> pyfloat option" where
  \<comment> \<open>\<open>get_recording_age_years(parse_date(date_str))\<close>\<close>
  "parse_date_age env date_str =
     (if date_str = [] \<or> strip date_str = [] then None else date_age env (strip date_str))"

definition is_bank_lender :: "string \<Rightarrow> bool" where
  "is_bank_lender lender_name =
     (if lender_name = [] then False
      else list_ex (contains (upper lender_name)) BANK_KEYWORDS)"

definition suffix_hit :: "string \<Rightarrow> string \<Rightarrow> bool" where
  \<comment> \<open>the test that \<open>detect_owner_type\<close> makes for one corporate suffix\<close>
  "suffix_hit name_upper suffix =
     (endswith name_upper ('' '' @ suffix) \<or> endswith name_upper ('', '' @ suffix)
      \<or> contains name_upper ('' '' @ suffix) \<or> contains name_upper ('', '' @ suffix))"

definition detect_owner_type :: "string \<Rightarrow> string" where
  "detect_owner_type name =
     (if name = [] \<or> strip name = [] then ''UNKNOWN''
      else
        let name_upper = strip (upper name) in
        if is_bank_lender name then ''BANK''
        else if list_ex (contains name_upper) [''TRUST'', ''TRUSTEE'', ''ESTATE''] then ''TRUST''
        else if list_ex (suffix_hit name_upper) [''LLC'', ''L.L.C.'', ''L L C''] then ''LLC''
        else if list_ex (suffix_hit name_upper)
                  [''INC'', ''INCORPORATED'', ''CORP'', ''CORPORATION'', ''LTD'', ''LIMITED'',
                   ''LP'', ''L.P.'', ''LLP'', ''L.L.P.'', ''PC'', ''P.C.'', ''PLLC'']
          then ''LLC''
        else if CHR '','' \<in> set name then ''PERSON''
        else if length name < 50
                \<and> \<not> list_ex (contains name_upper)
                      [''COMPANY'', ''GROUP'', ''HOLDINGS'', ''PROPERTIES'', ''INVESTMENTS'']
          then ''PERSON''
        else ''UNKNOWN'')"

definition is_discard_doc_type :: "string \<Rightarrow> bool" where
  "is_discard_doc_type doc_type =
     (if doc_type = [] then False
      else list_ex (contains (upper doc_type)) DISCARD_DOC_TYPES)"

text \<open>
  \<open>calculate_lead_score\<close>. The running score and the list of reasons pass through the
  blocks for the loan amount, the document type and the recording age; the block for the
  owner type starts them, and returns at once for a bank.
\<close>

definition score_amount :: "pyfloat option \<Rightarrow> int \<times> string list \<Rightarrow> int \<times> string list" where
  "score_amount loan_amount sr =
     (let (score, reasons) = sr in
      if truthy loan_amount then
        (let a = the loan_amount in
         if fle (Finite 10000) a \<and> flt a (Finite 100000) then (score + 25, reasons @ [''small amount''])
         else if fle (Finite 100000) a \<and> flt a (Finite 300000) then (score + 30, reasons @ [''medium amount''])
         else if fle (Finite 300000) a \<and> flt a (Finite (of_int MAX_LOAN_AMOUNT))
           then (score + 20, reasons @ [''large amount''])
         else if flt a (Finite 10000) then (score + 10, reasons @ [''very small amount''])
         else (score, reasons))
      else (score - 20, reasons @ [''missing loan amount'']))"

definition score_doc :: "string \<Rightarrow> bool \<Rightarrow> int \<times> string list \<Rightarrow> int \<times> string list" where
  "score_doc doc_type is_seller_finance sr =
     (let (score, reasons) = sr in
      if is_seller_finance then (score + 25, reasons @ [''seller finance doc''])
      else if doc_type \<noteq> [] then (score + 10, reasons @ [''other doc type''])
      else (score - 10, reasons @ [''missing doc type'']))"

definition score_age :: "pyfloat option \<Rightarrow> int \<times> string list \<Rightarrow> int \<times> string list" where
  "score_age recording_age sr =
     (let (score, reasons) = sr in
      if truthy recording_age then
        (let g = the recording_age in
         if fle (Finite 3) g \<and> fle g (Finite 10) then (score + 10, reasons @ [''recent recording''])
         else if flt (Finite 10) g \<and> fle g (Finite 20) then (score + 5, reasons @ [''older recording''])
         else if flt g (Finite 3) then (score - 5, reasons @ [''very recent''])
         else (score - 10, reasons @ [''very old'']))
      else (score - 5, reasons @ [''missing date'']))"

definition score_rest ::
    "pyfloat option \<Rightarrow> string \<Rightarrow> pyfloat option \<Rightarrow> bool \<Rightarrow> int \<times> string list \<Rightarrow> int \<times> string" where
  "score_rest loan_amount doc_type recording_age is_seller_finance sr =
     (let (score, reasons) =
            score_age recording_age (score_doc doc_type is_seller_finance (score_amount loan_amount sr))
      in (max 0 (min 100 score), join '' + '' (take 5 reasons)))"

definition calculate_lead_score ::
    "string \<Rightarrow> pyfloat option \<Rightarrow> string \<Rightarrow> pyfloat option \<Rightarrow> bool \<Rightarrow> int \<times> string" where
  "calculate_lead_score owner_type loan_amount doc_type recording_age is_seller_finance =
     (if owner_type = ''PERSON''
        then score_rest loan_amount doc_type recording_age is_seller_finance (0 + 40, [''person lender''])
      else if owner_type = ''LLC''
        then score_rest loan_amount doc_type recording_age is_seller_finance (0 + 25, [''LLC lender''])
      else if owner_type = ''TRUST''
        then score_rest loan_amount doc_type recording_age is_seller_finance (0 + 20, [''trust lender''])
      else if owner_type = ''BANK''
        then (0, ''bank lender'')
      else score_rest loan_amount doc_type recording_age is_seller_finance (0 + 10, [''unknown owner type'']))"

text \<open>\<open>classify_row\<close>: the discard rules, then the lead rules; the first that fits decides.\<close>

definition get_field :: "row \<Rightarrow> (string \<rightharpoonup> string) \<Rightarrow> string \<Rightarrow> string \<Rightarrow> string" where
  "get_field r column_mapping canonical_name dflt =
     (case column_mapping canonical_name of
        Some csv_col \<Rightarrow> row_get r csv_col dflt
      | None \<Rightarrow> dflt)"

definition classify_row :: "pyenv \<Rightarrow> row \<Rightarrow> (string \<rightharpoonup> string) \<Rightarrow> string \<times> string" where
  "classify_row env r column_mapping =
     (let lender_name = strip (get_field r column_mapping ''lender_name'' '''');
          loan_amount_str = get_field r column_mapping ''loan_amount'' '''';
          doc_type = strip (get_field r column_mapping ''doc_type'' '''');
          recording_date_str = get_field r column_mapping ''recording_date'' '''';
          loan_amount = parse_amount env loan_amount_str;
          recording_age = parse_date_age env recording_date_str
      in
        if is_bank_lender lender_name
          then (''DISCARD'', ''Lender is a bank or large financial institution'')
        else if is_discard_doc_type doc_type
          then (''DISCARD'', ''Document type indicates release/satisfaction: '' @ doc_type)
        else if loan_amount = None \<and> lender_name = [] \<and> doc_type = []
          then (''DISCARD'', ''Missing all critical fields (loan_amount, lender_name, doc_type)'')
        else if recording_age \<noteq> None \<and> flt (Finite (of_int MAX_AGE_YEARS)) (the recording_age)
          then (''DISCARD'', ''Recording too old ('' @ float_fmt_1f env (the recording_age)
                             @ '' years, max '' @ str_int MAX_AGE_YEARS @ '')'')
        else if loan_amount = None
          then (''REVIEW'', ''Missing loan_amount'')
        else if fle (the loan_amount) (Finite 0)
          then (''DISCARD'', ''Invalid loan amount: '' @ float_str env (the loan_amount))
        else if fle (Finite (of_int MAX_LOAN_AMOUNT)) (the loan_amount)
          then (''REVIEW'', ''Loan amount too large ('' @ float_fmt_comma env (the loan_amount)
                            @ '', max '' @ fmt_int_comma MAX_LOAN_AMOUNT @ '')'')
        else if lender_name = []
          then (''REVIEW'', ''Missing lender_name'')
        else if recording_age = None
          then (''REVIEW'', ''Missing or unparseable recording_date'')
        else if flt (the recording_age) (Finite (of_int MIN_AGE_YEARS))
          then (''REVIEW'', ''Recording too recent ('' @ float_fmt_1f env (the recording_age)
                            @ '' years, min '' @ str_int MIN_AGE_YEARS @ '')'')
        else if flt (Finite (of_int MAX_AGE_YEARS)) (the recording_age)
          then (''DISCARD'', ''Recording too old ('' @ float_fmt_1f env (the recording_age)
                             @ '' years, max '' @ str_int MAX_AGE_YEARS @ '')'')
        else (''LEAD'', ''Meets all criteria for seller-finance note lead''))"

section \<open>Note broker refinement (scripts/note\_broker\_refine.py)\<close>

definition NOTE_SWEET_SPOT_MIN :: int where "NOTE_SWEET_SPOT_MIN = 150000"

definition NOTE_SWEET_SPOT_MAX :: int where "NOTE_SWEET_SPOT_MAX = 400000"

definition WEIGHT_ABSENTEE_STRONG :: int where "WEIGHT_ABSENTEE_STRONG = 30"

definition WEIGHT_ABSENTEE_WEAK :: int where "WEIGHT_ABSENTEE_WEAK = 15"

definition WEIGHT_EMAIL :: int where "WEIGHT_EMAIL = 25"

definition WEIGHT_PHONE :: int where "WEIGHT_PHONE = 20"

definition WEIGHT_STREET_ADDRESS :: int where "WEIGHT_STREET_ADDRESS = 10"

definition WEIGHT_MULTIPLE_PROPERTIES :: int where "WEIGHT_MULTIPLE_PROPERTIES = 15"

definition WEIGHT_NOTE_SWEET_SPOT :: int where "WEIGHT_NOTE_SWEET_SPOT = 20"

definition WEIGHT_SIMPLE_NAME :: int where "WEIGHT_SIMPLE_NAME = 10"

text \<open>\<open>a or b\<close> on strings: the first if it is not empty, else the second.\<close>

definition str_or :: "string \<Rightarrow> string \<Rightarrow> string" where
  "str_or a b = (if a \<noteq> [] then a else b)"

definition has_email :: "row \<Rightarrow> bool" where
  "has_email r =
     (let email = strip (str_or (row_get r ''email'' '''') (row_get r ''Email'' ''''))
      in email \<noteq> [] \<and> CHR ''@'' \<in> set email)"

definition has_phone :: "row \<Rightarrow> bool" where
  "has_phone r =
     (let phone = strip (str_or (row_get r ''phone'' '''') (row_get r ''Phone'' ''''))
      in phone \<noteq> [] \<and> length phone \<ge> 10)"

definition is_street_address :: "string \<Rightarrow> bool" where
  "is_street_address address =
     (if address = [] then False
      else \<not> list_ex (contains (upper address))
                 [''PO BOX'', ''P.O. BOX'', ''P O BOX'', ''POBOX'', ''BOX '', ''PMB'', ''SUITE''])"

definition is_strong_absentee :: "row \<Rightarrow> bool" where
  "is_strong_absentee r =
     (let mailing_city = upper (strip (row_get r ''mailing_city'' ''''));
          mailing_state = upper (strip (row_get r ''mailing_state'' ''''));
          situs_city = upper (strip (row_get r ''situs_city'' ''''));
          situs_state = upper (strip (row_get r ''situs_state'' ''''))
      in
        if mailing_city = [] \<or> situs_city = [] then False
        else if mailing_state \<noteq> [] \<and> situs_state \<noteq> [] \<and> mailing_state \<noteq> situs_state then True
        else if mailing_city \<noteq> situs_city then True
        else False)"

definition is_weak_absentee :: "row \<Rightarrow> bool" where
  "is_weak_absentee r =
     (let mailing_address = upper (strip (row_get r ''mailing_address'' ''''));
          situs_address = upper (strip (row_get r ''situs_address'' ''''));
          mailing_city = upper (strip (row_get r ''mailing_city'' ''''));
          situs_city = upper (strip (row_get r ''situs_city'' ''''))
      in
        if mailing_address = [] \<or> situs_address = [] then False
        else if mailing_city = situs_city \<and> mailing_address \<noteq> situs_address then True
        else False)"

definition is_simple_name :: "string \<Rightarrow> bool" where
  "is_simple_name name =
     (if name = [] then False
      else if length name > 60 then False
      else \<not> list_ex (contains (upper name))
                 [''TRUST'', ''ESTATE'', ''HEIRS'', ''ET AL'', ''ETC'', ''UNKNOWN''])"

definition estimate_equity :: "pyenv \<Rightarrow> row \<Rightarrow> pyfloat option" where
  "estimate_equity env r =
     (let total_value = parse_amount env (row_get r ''total_value'' '''');
          improvement_value = parse_amount env (row_get r ''improvement_value'' '''')
      in case total_value of
           None \<Rightarrow> None
         | Some t \<Rightarrow>
             (let equity = float_sub env t (case improvement_value of None \<Rightarrow> Finite 0 | Some i \<Rightarrow> i)
              in if flt (Finite 0) equity then Some equity else None))"

definition is_in_note_sweet_spot :: "pyfloat option \<Rightarrow> bool" where
  "is_in_note_sweet_spot total_value =
     (case total_value of
        None \<Rightarrow> False
      | Some t \<Rightarrow> fle (Finite (of_int NOTE_SWEET_SPOT_MIN)) t \<and> fle t (Finite (of_int NOTE_SWEET_SPOT_MAX)))"

text \<open>
  \<open>calculate_engagement_score\<close>. The only step that can raise is
  \<open>int(row.get("property_count", "1") or "1")\<close>, with \<open>ValueError\<close> for a cell that is not an
  integer literal; the steps before it only add to the score and the reasons.
\<close>

definition score_contact :: "row \<Rightarrow> int \<times> string list" where
  \<comment> \<open>email, phone, mailing address and absentee status\<close>
  "score_contact r =
     (let (s1, r1) = (if has_email r then (0 + WEIGHT_EMAIL, [''has email'']) else (0, [''no email'']));
          (s2, r2) = (if has_phone r then (s1 + WEIGHT_PHONE, r1 @ [''has phone''])
                      else (s1, r1 @ [''no phone'']));
          (s3, r3) = (if is_street_address (row_get r ''mailing_address'' '''')
                        then (s2 + WEIGHT_STREET_ADDRESS, r2 @ [''street address''])
                      else (s2, r2 @ [''PO box or missing'']))
      in
        if is_strong_absentee r then (s3 + WEIGHT_ABSENTEE_STRONG, r3 @ [''strong absentee''])
        else if is_weak_absentee r then (s3 + WEIGHT_ABSENTEE_WEAK, r3 @ [''weak absentee''])
        else (s3, r3 @ [''owner occupied'']))"

definition score_properties :: "int \<Rightarrow> int \<times> string list \<Rightarrow> int \<times> string list" where
  "score_properties property_count sr =
     (let (score, reasons) = sr in
      if property_count \<ge> 3
        then (score + WEIGHT_MULTIPLE_PROPERTIES, reasons @ [str_int property_count @ '' properties''])
      else if property_count = 2
        then (score + WEIGHT_MULTIPLE_PROPERTIES div 2, reasons @ [''2 properties''])
      else (score, reasons))"

definition score_value_name :: "pyenv \<Rightarrow> row \<Rightarrow> int \<times> string list \<Rightarrow> int \<times> string list" where
  \<comment> \<open>note sweet spot and simple name\<close>
  "score_value_name env r sr =
     (let (s5, r5) = sr;
          total_value = parse_amount env (row_get r ''total_value'' '''');
          (s6, r6) = (if is_in_note_sweet_spot total_value
                        then (s5 + WEIGHT_NOTE_SWEET_SPOT, r5 @ [''note sweet spot value''])
                      else (s5, r5));
          owner_name = str_or (row_get r ''full_name'' '''') (row_get r ''company_name'' '''')
      in
        if is_simple_name owner_name then (s6 + WEIGHT_SIMPLE_NAME, r6 @ [''simple name''])
        else (s6, r6))"

definition calculate_engagement_score :: "pyenv \<Rightarrow> row \<Rightarrow> py_error + int \<times> string" where
  "calculate_engagement_score env r =
     (case py_int (str_or (row_get r ''property_count'' ''1'') ''1'') of
        None \<Rightarrow> Inl ValueError
      | Some property_count \<Rightarrow>
          (let (score, reasons) =
                 score_value_name env r (score_properties property_count (score_contact r))
           in Inr (max 0 (min 100 score), join '' + '' (take 6 reasons))))"

definition classify_for_note_broker :: "pyenv \<Rightarrow> row \<Rightarrow> py_error + string \<times> int \<times> string" where
  "classify_for_note_broker env r =
     (case calculate_engagement_score env r of
        Inl e \<Rightarrow> Inl e
      | Inr (engagement_score, why_flagged) \<Rightarrow>
          (let has_contact_info = (has_email r \<or> has_phone r) in
           if has_contact_info \<and> engagement_score \<ge> 60
             then Inr (''HIGH_PRIORITY'', engagement_score, why_flagged)
           else if engagement_score \<ge> 50
             then Inr (''MEDIUM_PRIORITY'', engagement_score, why_flagged)
           else if engagement_score \<ge> 30
             then Inr (''LOW_PRIORITY'', engagement_score, why_flagged)
           else Inr (''REVIEW'', engagement_score, why_flagged)))"

text \<open>
  \<open>process_targets_file\<close>: each input row is classified, enriched and written to the file
  of its tier, and the counter of that tier goes up by one. An exception in a row ends the
  run: nothing catches it.
\<close>

record targets_out =
  high_rows :: "row list"
  medium_rows :: "row list"
  low_rows :: "row list"
  review_rows :: "row list"
  high :: nat
  medium :: nat
  low :: nat
  review :: nat

definition targets_start :: targets_out where
  "targets_start = \<lparr> high_rows = [], medium_rows = [], low_rows = [], review_rows = [],
                     high = 0, medium = 0, low = 0, review = 0 \<rparr>"

definition enrich_target :: "pyenv \<Rightarrow> row \<Rightarrow> int \<Rightarrow> string \<Rightarrow> row" where
  "enrich_target env r engagement_score why_flagged =
     (let equity = estimate_equity env r;
          contact_quality = (if has_email r then [''EMAIL''] else [])
                          @ (if has_phone r then [''PHONE''] else [])
                          @ (if is_street_address (row_get r ''mailing_address'' '''')
                               then [''STREET_ADDRESS''] else [])
      in r(''engagement_score'' \<mapsto> str_int engagement_score,
           ''engagement_reason'' \<mapsto> why_flagged,
           ''equity_estimate'' \<mapsto> (if truthy equity then float_fmt_comma env (the equity) else ''''),
           ''has_email'' \<mapsto> (if has_email r then ''Y'' else ''N''),
           ''has_phone'' \<mapsto> (if has_phone r then ''Y'' else ''N''),
           ''contact_quality'' \<mapsto> (if contact_quality \<noteq> [] then join '' | '' contact_quality
                                      else ''NONE'')))"

definition targets_step :: "pyenv \<Rightarrow> targets_out \<Rightarrow> row \<Rightarrow> py_error + targets_out" where
  "targets_step env out r =
     (case classify_for_note_broker env r of
        Inl e \<Rightarrow> Inl e
      | Inr (classification, engagement_score, why_flagged) \<Rightarrow>
          (let enriched_row = enrich_target env r engagement_score why_flagged in
           if classification = ''HIGH_PRIORITY''
             then Inr (out\<lparr>high_rows := high_rows out @ [enriched_row], high := high out + 1\<rparr>)
           else if classification = ''MEDIUM_PRIORITY''
             then Inr (out\<lparr>medium_rows := medium_rows out @ [enriched_row], medium := medium out + 1\<rparr>)
           else if classification = ''LOW_PRIORITY''
             then Inr (out\<lparr>low_rows := low_rows out @ [enriched_row], low := low out + 1\<rparr>)
           else Inr (out\<lparr>review_rows := review_rows out @ [enriched_row], review := review out + 1\<rparr>)))"

fun targets_loop :: "pyenv \<Rightarrow> targets_out \<Rightarrow> row list \<Rightarrow> py_error + targets_out" where
  "targets_loop env out [] = Inr out"
| "targets_loop env out (r # rs) =
     (case targets_step env out r of
        Inl e \<Rightarrow> Inl e
      | Inr out' \<Rightarrow> targets_loop env out' rs)"

definition process_targets_file :: "pyenv \<Rightarrow> row list \<Rightarrow> py_error + targets_out" where
  "process_targets_file env rows = targets_loop env targets_start rows"

text \<open>
  The tier of a row and the row written for it, read off \<open>classify_for_note_broker\<close>; they
  describe the four output files of \<open>process_targets_file\<close> in the theorems below.
\<close>

definition tier_of :: "pyenv \<Rightarrow> row \<Rightarrow> string" where
  "tier_of env r = (case classify_for_note_broker env r of Inr (c, s, w) \<Rightarrow> c | Inl e \<Rightarrow> [])"

definition written_row :: "pyenv \<Rightarrow> row \<Rightarrow> row" where
  "written_row env r =
     (case classify_for_note_broker env r of Inr (c, s, w) \<Rightarrow> enrich_target env r s w | Inl e \<Rightarrow> r)"

section \<open>Grouping leads by owner (scripts/group\_by\_owner.py)\<close>

definition owner_key_name :: "row \<Rightarrow> string" where
  \<comment> \<open>the local variable \<open>name\<close> of \<open>normalize_owner_key\<close>\<close>
  "owner_key_name r =
     (let full_name = upper (strip (row_get r ''full_name'' ''''));
          company_name = upper (strip (row_get r ''company_name'' ''''))
      in if full_name \<noteq> [] then full_name else company_name)"

definition normalize_owner_key :: "row \<Rightarrow> string" where
  "normalize_owner_key r =
     (let mailing_zip = strip (row_get r ''mailing_zip'' '''');
          name = owner_key_name r
      in name @ ''|'' @ mailing_zip)"

text \<open>
  \<open>owner_groups\<close> is a dictionary from keys to lists of rows. Python keeps the keys in the
  order of their first insertion, and the output is written in that order, so the
  dictionary is an association list here.
\<close>

fun group_add :: "string \<Rightarrow> row \<Rightarrow> (string \<times> row list) list \<Rightarrow> (string \<times> row list) list" where
  "group_add k r [] = [(k, [r])]"
| "group_add k r ((k', rs) # gs) =
     (if k = k' then (k', rs @ [r]) # gs else (k', rs) # group_add k r gs)"

definition owner_groups :: "row list \<Rightarrow> (string \<times> row list) list" where
  "owner_groups rows = foldl (\<lambda>gs r. group_add (normalize_owner_key r) r gs) [] rows"








text \<open>
  The grouping key and the group score as the specification words them, to compare with
  the code: the key prefers the company name over the personal name, and the score of a
  group is the maximum of the scores of its members.
\<close>

definition claimed_owner_key :: "row \<Rightarrow> string" where
  "claimed_owner_key r =
     (let full_name = upper (strip (row_get r ''full_name'' ''''));
          company_name = upper (strip (row_get r ''company_name'' ''''))
      in (if company_name \<noteq> [] then company_name else full_name)
         @ ''|'' @ strip (row_get r ''mailing_zip'' ''''))"



text \<open>Two rows fall into the same group of \<open>owner_groups\<close>.\<close>

definition same_group :: "row list \<Rightarrow> row \<Rightarrow> row \<Rightarrow> bool" where
  "same_group rows r1 r2 = list_ex (\<lambda>g. r1 \<in> set (snd g) \<and> r2 \<in> set (snd g)) (owner_groups rows)"

section \<open>Merging enrichment results (scripts/merge\_enrichment.py)\<close>

definition load_enrichment_results :: "row list \<Rightarrow> (string \<rightharpoonup> row)" where
  "load_enrichment_results rows =
     foldl (\<lambda>enrichment_lookup r.
              let lead_id = strip (row_get r ''lead_id'' '''')
              in if lead_id \<noteq> [] then enrichment_lookup(lead_id \<mapsto> r) else enrichment_lookup)
           Map.empty rows"

record merge_out =
  merged_rows :: "row list"
  total_rows :: nat
  matched :: nat
  unmatched :: nat
  with_email :: nat
  with_phone :: nat

definition merge_start :: merge_out where
  "merge_start = \<lparr> merged_rows = [], total_rows = 0, matched = 0, unmatched = 0,
                   with_email = 0, with_phone = 0 \<rparr>"

definition fill_blank :: "string \<Rightarrow> row \<Rightarrow> row" where
  \<comment> \<open>\<open>if col not in output_row: output_row[col] = ""\<close>\<close>
  "fill_blank col output_row = (if output_row col = None then output_row(col \<mapsto> '''') else output_row)"

definition merge_step :: "(string \<rightharpoonup> row) \<Rightarrow> merge_out \<Rightarrow> row \<Rightarrow> merge_out" where
  "merge_step enrichment_lookup out r =
     (let out1 = out\<lparr>total_rows := total_rows out + 1\<rparr>;
          lead_id = strip (row_get r ''lead_id'' '''');
          output_row = r
      in case enrichment_lookup lead_id of
           Some enrichment_row \<Rightarrow>
             (let out2 = out1\<lparr>matched := matched out1 + 1\<rparr>;
                  email = strip (row_get enrichment_row ''email'' '''');
                  (row_e, out3) =
                     (if email \<noteq> [] then (output_row(''email'' \<mapsto> email),
                                            out2\<lparr>with_email := with_email out2 + 1\<rparr>)
                      else (fill_blank ''email'' output_row, out2));
                  phone = strip (row_get enrichment_row ''phone'' '''');
                  (row_p, out4) =
                     (if phone \<noteq> [] then (row_e(''phone'' \<mapsto> phone),
                                            out3\<lparr>with_phone := with_phone out3 + 1\<rparr>)
                      else (fill_blank ''phone'' row_e, out3))
              in out4\<lparr>merged_rows := merged_rows out4 @ [row_p]\<rparr>)
         | None \<Rightarrow>
             (let out2 = out1\<lparr>unmatched := unmatched out1 + 1\<rparr>;
                  row_p = fill_blank ''phone'' (fill_blank ''email'' output_row)
              in out2\<lparr>merged_rows := merged_rows out2 @ [row_p]\<rparr>))"

text \<open>The row that the loop of \<open>merge_enrichment\<close> writes for one lead.\<close>

definition merge_row :: "(string \<rightharpoonup> row) \<Rightarrow> row \<Rightarrow> row" where
  "merge_row enrichment_lookup r = last (merged_rows (merge_step enrichment_lookup merge_start r))"

definition merge_rows :: "(string \<rightharpoonup> row) \<Rightarrow> row list \<Rightarrow> merge_out" where
  \<comment> \<open>the loop over the rows of the leads file, for a given lookup\<close>
  "merge_rows enrichment_lookup leads = foldl (merge_step enrichment_lookup) merge_start leads"

definition merge_enrichment :: "row list \<Rightarrow> row list \<Rightarrow> merge_out" where
  \<comment> \<open>the rows of the leads file and of the enrichment file (none if the file is missing)\<close>
  "merge_enrichment leads enrichment = merge_rows (load_enrichment_results enrichment) leads"

section \<open>Fixed-width property records (main.py)\<close>
















section \<open>Routing by entity role (scripts/classify\_entity\_roles.py, continued)\<close>

text \<open>
  \<open>parse_engagement_score\<close> is \<open>int(float(score_str))\<close> with \<open>ValueError\<close> and
  \<open>TypeError\<close> caught; the \<open>OverflowError\<close> of an infinite value is not caught.
\<close>

definition parse_engagement_score :: "pyenv \<Rightarrow> row \<Rightarrow> py_error + int" where
  "parse_engagement_score env r =
     (let score_str = strip (row_get r ''engagement_score'' '''') in
      if score_str = [] then Inr 0
      else (case py_float env score_str of
              None \<Rightarrow> Inr 0
            | Some x \<Rightarrow>
                (case int_of_float x of
                   Inr i \<Rightarrow> Inr i
                 | Inl e \<Rightarrow> if e = ValueError then Inr 0 else Inl e)))"

text \<open>
  The body of the loop of \<open>process_entity_classification\<close> for one row: the name of the
  output file and the row written to it.
\<close>

definition entity_step :: "pyenv \<Rightarrow> row \<Rightarrow> py_error + string \<times> row" where
  "entity_step env r =
     (case classify_entity_role r of
        Inl e \<Rightarrow> Inl e
      | Inr (entity_role, role_reason) \<Rightarrow>
          (let modifier = get_role_score_modifier entity_role in
           case parse_engagement_score env r of
             Inl e \<Rightarrow> Inl e
           | Inr base_score \<Rightarrow>
               (let modified_score = apply_role_modifier base_score modifier;
                    modified_score' = (if modified_score = - 1 then 0 else modified_score);
                    enriched_row =
                      r(''entity_role'' \<mapsto> entity_role,
                        ''role_score_modifier'' \<mapsto>
                           (case modifier of Some m \<Rightarrow> str_int m | None \<Rightarrow> ''EXCLUDED''),
                        ''role_reason'' \<mapsto> role_reason,
                        ''engagement_score'' \<mapsto> str_int modified_score')
                in Inr (get_output_file_for_role entity_role, enriched_row))))"


text \<open>The closed set of entity roles.\<close>

definition ROLES :: "string list" where
  "ROLES = [''INVESTOR_ENTITY'', ''TRUST_ENTITY'', ''INDIVIDUAL_PERSON'', ''LEGAL_ENTITY'',
            ''BANK_INSTITUTION'', ''GOVERNMENT_ENTITY'', ''UTILITY_OR_NONPROFIT'', ''UNKNOWN'']"

section \<open>Lemmas on strings and keyword matching\<close>

lemma startswith_iff: "startswith s p \<longleftrightarrow> (\<exists>t. s = p @ t)"
  by (induction s p rule: startswith.induct) auto

lemma contains_iff: "contains t kw \<longleftrightarrow> (\<exists>p s. t = p @ kw @ s)"
proof (induction t)
  case Nil
  then show ?case by auto
next
  case (Cons c cs)
  show ?case
  proof
    assume "contains (c # cs) kw"
    then consider "startswith (c # cs) kw" | "contains cs kw" by auto
    then show "\<exists>p s. c # cs = p @ kw @ s"
    proof cases
      case 1
      then obtain t where "c # cs = kw @ t" by (auto simp: startswith_iff)
      then have "c # cs = [] @ kw @ t" by simp
      then show ?thesis by blast
    next
      case 2
      then obtain p s where "cs = p @ kw @ s" using Cons.IH by blast
      then have "c # cs = (c # p) @ kw @ s" by simp
      then show ?thesis by blast
    qed
  next
    assume "\<exists>p s. c # cs = p @ kw @ s"
    then obtain p s where e: "c # cs = p @ kw @ s" by blast
    show "contains (c # cs) kw"
    proof (cases p)
      case Nil
      with e have "startswith (c # cs) kw" by (auto simp: startswith_iff)
      then show ?thesis by simp
    next
      case (Cons a p')
      with e have "cs = p' @ kw @ s" by simp
      then have "contains cs kw" using Cons.IH by blast
      then show ?thesis by simp
    qed
  qed
qed

lemma contains_map: "contains t kw \<Longrightarrow> contains (map f t) (map f kw)"
  unfolding contains_iff by (metis map_append)

lemma contains_upper: "contains t kw \<Longrightarrow> upper kw = kw \<Longrightarrow> contains (upper t) kw"
  using contains_map [of t kw upper_char] by (simp add: upper_def)

lemma list_ex_filter: "list_ex P xs \<Longrightarrow> filter P xs \<noteq> []"
  by (induction xs) auto

lemma keyword_result_ok:
  assumes "contains_keyword t kws"
  shows "\<exists>kw. kw \<in> set kws \<and> keyword_result role label kws (upper t) = Inr (role, label @ kw)"
proof -
  from assms have "list_ex (contains (upper t)) kws"
    by (simp add: contains_keyword_def split: if_splits)
  then have "filter (contains (upper t)) kws \<noteq> []" by (rule list_ex_filter)
  then obtain kw rest where f: "filter (contains (upper t)) kws = kw # rest"
    by (cases "filter (contains (upper t)) kws") auto
  then have "kw \<in> set (filter (contains (upper t)) kws)" by simp
  then have "kw \<in> set kws" by simp
  moreover from f have "keyword_result role label kws (upper t) = Inr (role, label @ kw)"
    by (simp add: keyword_result_def first_matched_def)
  ultimately show ?thesis by blast
qed


lemma contains_keyword_append:
  "contains_keyword t (xs @ ys) \<longleftrightarrow> contains_keyword t xs \<or> contains_keyword t ys"
  by (auto simp: contains_keyword_def list_ex_iff)

lemma classify_no_name:
  "get_entity_name r = [] \<Longrightarrow> classify_entity_role r = Inr (''UNKNOWN'', ''no name provided'')"
  by (simp add: classify_entity_role_def)

lemma classify_bank:
  "get_entity_name r \<noteq> [] \<Longrightarrow> contains_keyword (get_entity_name r) ROLE_BANK_KEYWORDS \<Longrightarrow>
   classify_entity_role r
     = keyword_result ''BANK_INSTITUTION'' ''bank keyword: '' ROLE_BANK_KEYWORDS (upper (get_entity_name r))"
  by (simp add: classify_entity_role_def Let_def)

lemma classify_gov:
  "get_entity_name r \<noteq> [] \<Longrightarrow> \<not> contains_keyword (get_entity_name r) ROLE_BANK_KEYWORDS \<Longrightarrow>
   contains_keyword (get_entity_name r) GOV_KEYWORDS \<Longrightarrow>
   classify_entity_role r
     = keyword_result ''GOVERNMENT_ENTITY'' ''government keyword: '' GOV_KEYWORDS (upper (get_entity_name r))"
  by (simp add: classify_entity_role_def Let_def)

lemma classify_utility:
  "get_entity_name r \<noteq> [] \<Longrightarrow> \<not> contains_keyword (get_entity_name r) ROLE_BANK_KEYWORDS \<Longrightarrow>
   \<not> contains_keyword (get_entity_name r) GOV_KEYWORDS \<Longrightarrow>
   contains_keyword (get_entity_name r) UTILITY_KEYWORDS \<Longrightarrow>
   classify_entity_role r
     = keyword_result ''UTILITY_OR_NONPROFIT'' ''utility keyword: '' UTILITY_KEYWORDS (upper (get_entity_name r))"
  by (simp add: classify_entity_role_def Let_def)

lemma classify_trust:
  "get_entity_name r \<noteq> [] \<Longrightarrow> \<not> contains_keyword (get_entity_name r) ROLE_BANK_KEYWORDS \<Longrightarrow>
   \<not> contains_keyword (get_entity_name r) GOV_KEYWORDS \<Longrightarrow>
   \<not> contains_keyword (get_entity_name r) UTILITY_KEYWORDS \<Longrightarrow>
   contains_keyword (get_entity_name r) TRUST_KEYWORDS \<Longrightarrow>
   classify_entity_role r
     = keyword_result ''TRUST_ENTITY'' ''trust keyword: '' TRUST_KEYWORDS (upper (get_entity_name r))"
  by (simp add: classify_entity_role_def Let_def)

lemma classify_investor:
  "get_entity_name r \<noteq> [] \<Longrightarrow> \<not> contains_keyword (get_entity_name r) ROLE_BANK_KEYWORDS \<Longrightarrow>
   \<not> contains_keyword (get_entity_name r) GOV_KEYWORDS \<Longrightarrow>
   \<not> contains_keyword (get_entity_name r) UTILITY_KEYWORDS \<Longrightarrow>
   \<not> contains_keyword (get_entity_name r) TRUST_KEYWORDS \<Longrightarrow>
   contains_keyword (get_entity_name r) INVESTOR_KEYWORDS \<Longrightarrow>
   classify_entity_role r
     = keyword_result ''INVESTOR_ENTITY'' ''investor keyword: '' INVESTOR_KEYWORDS (upper (get_entity_name r))"
  by (simp add: classify_entity_role_def Let_def)

lemma classify_legal:
  "get_entity_name r \<noteq> [] \<Longrightarrow> \<not> contains_keyword (get_entity_name r) ROLE_BANK_KEYWORDS \<Longrightarrow>
   \<not> contains_keyword (get_entity_name r) GOV_KEYWORDS \<Longrightarrow>
   \<not> contains_keyword (get_entity_name r) UTILITY_KEYWORDS \<Longrightarrow>
   \<not> contains_keyword (get_entity_name r) TRUST_KEYWORDS \<Longrightarrow>
   \<not> contains_keyword (get_entity_name r) INVESTOR_KEYWORDS \<Longrightarrow>
   contains_keyword (get_entity_name r) LEGAL_KEYWORDS \<Longrightarrow>
   classify_entity_role r
     = keyword_result ''LEGAL_ENTITY'' ''legal keyword: '' LEGAL_KEYWORDS (upper (get_entity_name r))"
  by (simp add: classify_entity_role_def Let_def)

lemma classify_no_keyword:
  "get_entity_name r \<noteq> [] \<Longrightarrow> \<not> contains_keyword (get_entity_name r) ROLE_BANK_KEYWORDS \<Longrightarrow>
   \<not> contains_keyword (get_entity_name r) GOV_KEYWORDS \<Longrightarrow>
   \<not> contains_keyword (get_entity_name r) UTILITY_KEYWORDS \<Longrightarrow>
   \<not> contains_keyword (get_entity_name r) TRUST_KEYWORDS \<Longrightarrow>
   \<not> contains_keyword (get_entity_name r) INVESTOR_KEYWORDS \<Longrightarrow>
   \<not> contains_keyword (get_entity_name r) LEGAL_KEYWORDS \<Longrightarrow>
   classify_entity_role r
     = (if upper (row_get r ''owner_type'' '''') = ''PERSON''
           \<and> \<not> list_ex (contains (upper (get_entity_name r))) entity_indicators
        then Inr (''INDIVIDUAL_PERSON'', ''owner_type=PERSON, no entity keywords'')
        else Inr (''UNKNOWN'', ''no matching keywords or patterns''))"
  by (simp add: classify_entity_role_def Let_def contains_keyword_append)

lemma classify_entity_role_cases:
  obtains
    (no_name) "get_entity_name r = []"
      "classify_entity_role r = Inr (''UNKNOWN'', ''no name provided'')"
  | (bank) kw where "get_entity_name r \<noteq> []" "contains_keyword (get_entity_name r) ROLE_BANK_KEYWORDS"
      "contains_keyword (get_entity_name r)
           (ROLE_BANK_KEYWORDS @ GOV_KEYWORDS @ UTILITY_KEYWORDS @ TRUST_KEYWORDS
            @ INVESTOR_KEYWORDS @ LEGAL_KEYWORDS)"
      "classify_entity_role r = Inr (''BANK_INSTITUTION'', ''bank keyword: '' @ kw)"
  | (gov) kw where "get_entity_name r \<noteq> []" "\<not> contains_keyword (get_entity_name r) ROLE_BANK_KEYWORDS"
      "contains_keyword (get_entity_name r)
           (ROLE_BANK_KEYWORDS @ GOV_KEYWORDS @ UTILITY_KEYWORDS @ TRUST_KEYWORDS
            @ INVESTOR_KEYWORDS @ LEGAL_KEYWORDS)"
      "classify_entity_role r = Inr (''GOVERNMENT_ENTITY'', ''government keyword: '' @ kw)"
  | (utility) kw where "get_entity_name r \<noteq> []" "\<not> contains_keyword (get_entity_name r) ROLE_BANK_KEYWORDS"
      "contains_keyword (get_entity_name r)
           (ROLE_BANK_KEYWORDS @ GOV_KEYWORDS @ UTILITY_KEYWORDS @ TRUST_KEYWORDS
            @ INVESTOR_KEYWORDS @ LEGAL_KEYWORDS)"
      "classify_entity_role r = Inr (''UTILITY_OR_NONPROFIT'', ''utility keyword: '' @ kw)"
  | (trust) kw where "get_entity_name r \<noteq> []" "\<not> contains_keyword (get_entity_name r) ROLE_BANK_KEYWORDS"
      "contains_keyword (get_entity_name r)
           (ROLE_BANK_KEYWORDS @ GOV_KEYWORDS @ UTILITY_KEYWORDS @ TRUST_KEYWORDS
            @ INVESTOR_KEYWORDS @ LEGAL_KEYWORDS)"
      "classify_entity_role r = Inr (''TRUST_ENTITY'', ''trust keyword: '' @ kw)"
  | (investor) kw where "get_entity_name r \<noteq> []" "\<not> contains_keyword (get_entity_name r) ROLE_BANK_KEYWORDS"
      "contains_keyword (get_entity_name r)
           (ROLE_BANK_KEYWORDS @ GOV_KEYWORDS @ UTILITY_KEYWORDS @ TRUST_KEYWORDS
            @ INVESTOR_KEYWORDS @ LEGAL_KEYWORDS)"
      "classify_entity_role r = Inr (''INVESTOR_ENTITY'', ''investor keyword: '' @ kw)"
  | (legal) kw where "get_entity_name r \<noteq> []" "\<not> contains_keyword (get_entity_name r) ROLE_BANK_KEYWORDS"
      "contains_keyword (get_entity_name r)
           (ROLE_BANK_KEYWORDS @ GOV_KEYWORDS @ UTILITY_KEYWORDS @ TRUST_KEYWORDS
            @ INVESTOR_KEYWORDS @ LEGAL_KEYWORDS)"
      "classify_entity_role r = Inr (''LEGAL_ENTITY'', ''legal keyword: '' @ kw)"
  | (person) "get_entity_name r \<noteq> []"
      "\<not> contains_keyword (get_entity_name r)
           (ROLE_BANK_KEYWORDS @ GOV_KEYWORDS @ UTILITY_KEYWORDS @ TRUST_KEYWORDS
            @ INVESTOR_KEYWORDS @ LEGAL_KEYWORDS)"
      "upper (row_get r ''owner_type'' '''') = ''PERSON''"
      "\<not> list_ex (contains (upper (get_entity_name r))) entity_indicators"
      "classify_entity_role r = Inr (''INDIVIDUAL_PERSON'', ''owner_type=PERSON, no entity keywords'')"
  | (unknown) "get_entity_name r \<noteq> []"
      "\<not> contains_keyword (get_entity_name r)
           (ROLE_BANK_KEYWORDS @ GOV_KEYWORDS @ UTILITY_KEYWORDS @ TRUST_KEYWORDS
            @ INVESTOR_KEYWORDS @ LEGAL_KEYWORDS)"
      "\<not> (upper (row_get r ''owner_type'' '''') = ''PERSON''
          \<and> \<not> list_ex (contains (upper (get_entity_name r))) entity_indicators)"
      "classify_entity_role r = Inr (''UNKNOWN'', ''no matching keywords or patterns'')"
proof (cases "get_entity_name r = []")
  case True
  then show ?thesis using no_name classify_no_name by blast
next
  case ne: False
  let ?n = "get_entity_name r"
  let ?all = "ROLE_BANK_KEYWORDS @ GOV_KEYWORDS @ UTILITY_KEYWORDS @ TRUST_KEYWORDS
              @ INVESTOR_KEYWORDS @ LEGAL_KEYWORDS"
  show ?thesis
  proof (cases "contains_keyword ?n ROLE_BANK_KEYWORDS")
    case True
    then have "contains_keyword ?n ?all" by (simp add: contains_keyword_append)
    with True keyword_result_ok [OF True] classify_bank [OF ne True] bank ne show ?thesis by metis
  next
    case nb: False
    show ?thesis
    proof (cases "contains_keyword ?n GOV_KEYWORDS")
      case True
      then have "contains_keyword ?n ?all" by (simp add: contains_keyword_append)
      with keyword_result_ok [OF True] classify_gov [OF ne nb True] gov ne nb show ?thesis by metis
    next
      case ng: False
      show ?thesis
      proof (cases "contains_keyword ?n UTILITY_KEYWORDS")
        case True
        then have "contains_keyword ?n ?all" by (simp add: contains_keyword_append)
        with keyword_result_ok [OF True] classify_utility [OF ne nb ng True] utility ne nb
        show ?thesis by metis
      next
        case nu: False
        show ?thesis
        proof (cases "contains_keyword ?n TRUST_KEYWORDS")
          case True
          then have "contains_keyword ?n ?all" by (simp add: contains_keyword_append)
          with keyword_result_ok [OF True] classify_trust [OF ne nb ng nu True] trust ne nb
          show ?thesis by metis
        next
          case nt: False
          show ?thesis
          proof (cases "contains_keyword ?n INVESTOR_KEYWORDS")
            case True
            then have "contains_keyword ?n ?all" by (simp add: contains_keyword_append)
            with keyword_result_ok [OF True] classify_investor [OF ne nb ng nu nt True] investor ne nb
            show ?thesis by metis
          next
            case ni: False
            show ?thesis
            proof (cases "contains_keyword ?n LEGAL_KEYWORDS")
              case True
              then have "contains_keyword ?n ?all" by (simp add: contains_keyword_append)
              with keyword_result_ok [OF True] classify_legal [OF ne nb ng nu nt ni True] legal ne nb
              show ?thesis by metis
            next
              case nl: False
              have nokw: "\<not> contains_keyword ?n
                   (ROLE_BANK_KEYWORDS @ GOV_KEYWORDS @ UTILITY_KEYWORDS @ TRUST_KEYWORDS
                    @ INVESTOR_KEYWORDS @ LEGAL_KEYWORDS)"
                using nb ng nu nt ni nl by (simp add: contains_keyword_append)
              note c = classify_no_keyword [OF ne nb ng nu nt ni nl]
              show ?thesis
              proof (cases "upper (row_get r ''owner_type'' '''') = ''PERSON''
                     \<and> \<not> list_ex (contains (upper ?n)) entity_indicators")
                case True
                with c have "classify_entity_role r
                    = Inr (''INDIVIDUAL_PERSON'', ''owner_type=PERSON, no entity keywords'')"
                  by simp
                with True ne nokw person show ?thesis by blast
              next
                case False
                with c have "classify_entity_role r
                    = Inr (''UNKNOWN'', ''no matching keywords or patterns'')"
                  by simp
                with False ne nokw unknown show ?thesis by blast
              qed
            qed
          qed
        qed
      qed
    qed
  qed
qed


text \<open>
  Claim C7. \<open>classify_entity_role\<close> is total: for every row it returns (it never ends in
  the \<open>IndexError\<close> of \<open>matched[0]\<close>) exactly one role of the closed set of eight together
  with a reason; when the row provides no name, the role is \<open>UNKNOWN\<close> and the reason is
  "no name provided".
\<close>

theorem classify_entity_role_total:
  "\<exists>role reason. classify_entity_role r = Inr (role, reason) \<and> role \<in> set ROLES
     \<and> (get_entity_name r = [] \<longrightarrow> role = ''UNKNOWN'' \<and> reason = ''no name provided'')"
  by (cases r rule: classify_entity_role_cases) (simp_all add: ROLES_def)

theorem classify_entity_role_total_witness:
  "get_entity_name [''full_name'' \<mapsto> ''   '', ''owner_type'' \<mapsto> ''PERSON''] = []
   \<and> classify_entity_role [''full_name'' \<mapsto> ''   '', ''owner_type'' \<mapsto> ''PERSON'']
       = Inr (''UNKNOWN'', ''no name provided'')"
proof -
  have h: "get_entity_name [''full_name'' \<mapsto> ''   '', ''owner_type'' \<mapsto> ''PERSON''] = []"
    by (simp add: get_entity_name_def row_get_def strip_def lstrip_def rstrip_def is_space_def)
  from classify_entity_role_total [of "[''full_name'' \<mapsto> ''   '', ''owner_type'' \<mapsto> ''PERSON'']"] h
  show ?thesis by auto
qed




lemma str_int_0: "str_int 0 = ''0''"
  by (simp add: str_int_def str_nat.simps)

text \<open>
  Claim C10. Keyword matching is substring containment on the upper-cased name, so every
  row whose entity name (the stripped company name if that is not empty, else the stripped
  full name) contains "VA" is classified \<open>BANK_INSTITUTION\<close>. That role is excluded, and
  whenever the base score of the row can be read, the row is written to
  note\_broker\_excluded\_entities.csv with the score "0" and the modifier "EXCLUDED".
\<close>

theorem va_substring_is_bank:
  assumes "contains (get_entity_name r) ''VA''"
  shows "(\<exists>reason. classify_entity_role r = Inr (''BANK_INSTITUTION'', reason))
     \<and> is_excluded_role ''BANK_INSTITUTION''
     \<and> (\<forall>b. parse_engagement_score env r = Inr b \<longrightarrow>
          (\<exists>out. entity_step env r = Inr (''note_broker_excluded_entities.csv'', out)
                \<and> out ''entity_role'' = Some ''BANK_INSTITUTION''
                \<and> out ''role_score_modifier'' = Some ''EXCLUDED''
                \<and> out ''engagement_score'' = Some ''0''))"
proof -
  from assms have ne: "get_entity_name r \<noteq> []" by auto
  have "upper ''VA'' = ''VA''" by (simp add: upper_def upper_char_def)
  with assms have "contains (upper (get_entity_name r)) ''VA''" by (simp add: contains_upper)
  then have "list_ex (contains (upper (get_entity_name r))) ROLE_BANK_KEYWORDS"
    by (simp add: ROLE_BANK_KEYWORDS_def)
  with ne have ck: "contains_keyword (get_entity_name r) ROLE_BANK_KEYWORDS"
    by (simp add: contains_keyword_def)
  then obtain kw where c: "classify_entity_role r = Inr (''BANK_INSTITUTION'', ''bank keyword: '' @ kw)"
    using keyword_result_ok [OF ck] classify_bank [OF ne ck] by metis
  have x: "is_excluded_role ''BANK_INSTITUTION''" by (simp add: is_excluded_role_def)
  have m: "get_role_score_modifier ''BANK_INSTITUTION'' = None"
    by (simp add: get_role_score_modifier_def)
  have f: "get_output_file_for_role ''BANK_INSTITUTION'' = ''note_broker_excluded_entities.csv''"
    by (simp add: get_output_file_for_role_def)
  have "\<exists>out. entity_step env r = Inr (''note_broker_excluded_entities.csv'', out)
                \<and> out ''entity_role'' = Some ''BANK_INSTITUTION''
                \<and> out ''role_score_modifier'' = Some ''EXCLUDED''
                \<and> out ''engagement_score'' = Some ''0''"
    if "parse_engagement_score env r = Inr b" for b
    using that c m f by (simp add: entity_step_def apply_role_modifier_def str_int_0)
  with c x show ?thesis by blast
qed

theorem va_substring_is_bank_witness:
  "contains (get_entity_name [''full_name'' \<mapsto> ''MARIA SILVA'', ''engagement_score'' \<mapsto> ''75'']) ''VA''
   \<and> parse_engagement_score example_env [''full_name'' \<mapsto> ''MARIA SILVA'', ''engagement_score'' \<mapsto> ''75'']
       = Inr 75
   \<and> (\<exists>out. entity_step example_env [''full_name'' \<mapsto> ''MARIA SILVA'', ''engagement_score'' \<mapsto> ''75'']
               = Inr (''note_broker_excluded_entities.csv'', out)
            \<and> out ''engagement_score'' = Some ''0'')"
proof -
  let ?r = "[''full_name'' \<mapsto> ''MARIA SILVA'', ''engagement_score'' \<mapsto> ''75'']"
  have h: "contains (get_entity_name ?r) ''VA''" by code_simp
  have p: "parse_engagement_score example_env ?r = Inr 75" by code_simp
  from va_substring_is_bank [OF h, of example_env] h p show ?thesis by blast
qed

section \<open>The bank gate and the score bounds\<close>

lemma lstrip_rstrip_fix:
  assumes "t = [] \<or> \<not> is_space (hd t)"
  shows "lstrip (rstrip t) = rstrip t"
proof (cases "rstrip t = []")
  case True
  then show ?thesis by (simp add: lstrip_def)
next
  case False
  have "t = rev (takeWhile is_space (rev t) @ dropWhile is_space (rev t))"
    by (simp only: takeWhile_dropWhile_id rev_rev_ident)
  then have t: "t = rstrip t @ rev (takeWhile is_space (rev t))"
    by (simp only: rev_append rstrip_def)
  with False have "hd (rstrip t) = hd t" by (metis hd_append2)
  moreover from t False have "t \<noteq> []" by auto
  ultimately have "\<not> is_space (hd (rstrip t))" using assms by simp
  with False show ?thesis by (cases "rstrip t") (simp_all add: lstrip_def)
qed

lemma rstrip_idem: "rstrip (rstrip t) = rstrip t"
  by (simp add: rstrip_def)

lemma strip_idem: "strip (strip s) = strip s"
proof -
  have "lstrip s = [] \<or> \<not> is_space (hd (lstrip s))"
    unfolding lstrip_def by (metis hd_dropWhile)
  then have "lstrip (rstrip (lstrip s)) = rstrip (lstrip s)" by (rule lstrip_rstrip_fix)
  then show ?thesis by (simp add: strip_def rstrip_idem)
qed

lemma is_bank_lender_nonempty: "is_bank_lender n \<Longrightarrow> n \<noteq> []"
  by (auto simp: is_bank_lender_def)

text \<open>
  Claim C1. A row whose lender name matches a bank keyword is discarded by \<open>classify_row\<close>
  with the bank reason, whatever its loan amount, document type and recording date, and
  whatever the run-time environment; the owner type detected for that lender is \<open>BANK\<close>;
  and \<open>calculate_lead_score\<close> returns the score 0 with the reason "bank lender" for the
  owner type \<open>BANK\<close>, whatever the other arguments.
\<close>

theorem bank_lender_discarded:
  assumes "is_bank_lender (strip (get_field r column_mapping ''lender_name'' ''''))"
  shows "classify_row env r column_mapping
           = (''DISCARD'', ''Lender is a bank or large financial institution'')
     \<and> detect_owner_type (strip (get_field r column_mapping ''lender_name'' '''')) = ''BANK''
     \<and> calculate_lead_score ''BANK'' loan_amount doc_type recording_age is_seller_finance
           = (0, ''bank lender'')"
proof -
  let ?n = "strip (get_field r column_mapping ''lender_name'' '''')"
  have 1: "classify_row env r column_mapping
           = (''DISCARD'', ''Lender is a bank or large financial institution'')"
    using assms by (simp add: classify_row_def Let_def)
  from assms have "?n \<noteq> []" by (rule is_bank_lender_nonempty)
  then have "\<not> (?n = [] \<or> strip ?n = [])" by (simp add: strip_idem)
  with assms have 2: "detect_owner_type ?n = ''BANK''"
    by (simp add: detect_owner_type_def Let_def)
  have 3: "calculate_lead_score ''BANK'' loan_amount doc_type recording_age is_seller_finance
           = (0, ''bank lender'')"
    by (simp add: calculate_lead_score_def)
  from 1 2 3 show ?thesis by simp
qed

theorem bank_lender_discarded_witness:
  "is_bank_lender (strip (get_field [''Lender'' \<mapsto> ''Wells Fargo Bank, N.A.'', ''Amount'' \<mapsto> ''150,000'']
                      [''lender_name'' \<mapsto> ''Lender'', ''loan_amount'' \<mapsto> ''Amount''] ''lender_name'' ''''))
   \<and> classify_row example_env [''Lender'' \<mapsto> ''Wells Fargo Bank, N.A.'', ''Amount'' \<mapsto> ''150,000'']
        [''lender_name'' \<mapsto> ''Lender'', ''loan_amount'' \<mapsto> ''Amount'']
       = (''DISCARD'', ''Lender is a bank or large financial institution'')
   \<and> calculate_lead_score
        (detect_owner_type (strip (get_field [''Lender'' \<mapsto> ''Wells Fargo Bank, N.A.'', ''Amount'' \<mapsto> ''150,000'']
                      [''lender_name'' \<mapsto> ''Lender'', ''loan_amount'' \<mapsto> ''Amount''] ''lender_name'' '''')))
        (Some (Finite 150000)) ''DEED OF TRUST'' (Some (Finite 5)) True
       = (0, ''bank lender'')"
proof -
  let ?r = "[''Lender'' \<mapsto> ''Wells Fargo Bank, N.A.'', ''Amount'' \<mapsto> ''150,000'']"
  let ?m = "[''lender_name'' \<mapsto> ''Lender'', ''loan_amount'' \<mapsto> ''Amount'']"
  have h: "is_bank_lender (strip (get_field ?r ?m ''lender_name'' ''''))"
    by code_simp
  from bank_lender_discarded [OF h, of example_env "Some (Finite 150000)" "''DEED OF TRUST''" "Some (Finite 5)" True] h
  show ?thesis by simp
qed

lemma clamp_bounds: "0 \<le> max 0 (min 100 (s::int)) \<and> max 0 (min 100 s) \<le> 100"
  by simp

lemma score_rest_bounds:
  "0 \<le> fst (score_rest a d g sf sr) \<and> fst (score_rest a d g sf sr) \<le> 100"
  by (simp add: score_rest_def split: prod.splits)

text \<open>
  Claim C2. The score that \<open>calculate_lead_score\<close> returns is between 0 and 100 for all
  arguments, and so is the score that \<open>calculate_engagement_score\<close> returns for every row.
  (\<open>calculate_engagement_score\<close> returns for every row whose property count is absent,
  empty or an integer literal; on any other row it raises \<open>ValueError\<close> and returns no
  score.)
\<close>

theorem score_bounds:
  "0 \<le> fst (calculate_lead_score owner_type loan_amount doc_type recording_age is_seller_finance)
   \<and> fst (calculate_lead_score owner_type loan_amount doc_type recording_age is_seller_finance) \<le> 100
   \<and> (case calculate_engagement_score env r of
         Inr (score, why_flagged) \<Rightarrow> 0 \<le> score \<and> score \<le> 100
       | Inl e \<Rightarrow> e = ValueError \<and> py_int (str_or (row_get r ''property_count'' ''1'') ''1'') = None)"
proof -
  have 1: "0 \<le> fst (calculate_lead_score owner_type loan_amount doc_type recording_age is_seller_finance)
     \<and> fst (calculate_lead_score owner_type loan_amount doc_type recording_age is_seller_finance) \<le> 100"
    by (simp add: calculate_lead_score_def score_rest_bounds)
  have 2: "case calculate_engagement_score env r of
         Inr (score, why_flagged) \<Rightarrow> 0 \<le> score \<and> score \<le> 100
       | Inl e \<Rightarrow> e = ValueError \<and> py_int (str_or (row_get r ''property_count'' ''1'') ''1'') = None"
    by (simp add: calculate_engagement_score_def split: option.splits prod.splits)
  from 1 2 show ?thesis by simp
qed

section \<open>The tiers of the note broker router\<close>

lemma classify_for_note_broker_ok:
  assumes "py_int (str_or (row_get r ''property_count'' ''1'') ''1'') \<noteq> None"
  shows "\<exists>score why. calculate_engagement_score env r = Inr (score, why)
     \<and> classify_for_note_broker env r
         = Inr (if (has_email r \<or> has_phone r) \<and> score \<ge> 60 then ''HIGH_PRIORITY''
                else if score \<ge> 50 then ''MEDIUM_PRIORITY''
                else if score \<ge> 30 then ''LOW_PRIORITY''
                else ''REVIEW'', score, why)"
proof -
  from assms obtain pc where pc: "py_int (str_or (row_get r ''property_count'' ''1'') ''1'') = Some pc"
    by auto
  obtain s rs where "score_value_name env r (score_properties pc (score_contact r)) = (s, rs)"
    by (cases "score_value_name env r (score_properties pc (score_contact r))")
  with pc have "calculate_engagement_score env r = Inr (max 0 (min 100 s), join '' + '' (take 6 rs))"
    by (simp add: calculate_engagement_score_def)
  then obtain score why where "calculate_engagement_score env r = Inr (score, why)"
    by blast
  then show ?thesis by (simp add: classify_for_note_broker_def)
qed

lemma tier_of_cases:
  assumes "py_int (str_or (row_get r ''property_count'' ''1'') ''1'') \<noteq> None"
  shows "tier_of env r \<in> {''HIGH_PRIORITY'', ''MEDIUM_PRIORITY'', ''LOW_PRIORITY'', ''REVIEW''}"
  using classify_for_note_broker_ok [OF assms, of env] by (auto simp: tier_of_def split: if_splits)

lemma targets_step_ok:
  assumes "py_int (str_or (row_get r ''property_count'' ''1'') ''1'') \<noteq> None"
  shows "targets_step env out r = Inr
     (out\<lparr> high_rows := high_rows out @ (if tier_of env r = ''HIGH_PRIORITY'' then [written_row env r] else []),
           medium_rows := medium_rows out @ (if tier_of env r = ''MEDIUM_PRIORITY'' then [written_row env r] else []),
           low_rows := low_rows out @ (if tier_of env r = ''LOW_PRIORITY'' then [written_row env r] else []),
           review_rows := review_rows out @ (if tier_of env r = ''REVIEW'' then [written_row env r] else []),
           high := high out + (if tier_of env r = ''HIGH_PRIORITY'' then 1 else 0),
           medium := medium out + (if tier_of env r = ''MEDIUM_PRIORITY'' then 1 else 0),
           low := low out + (if tier_of env r = ''LOW_PRIORITY'' then 1 else 0),
           review := review out + (if tier_of env r = ''REVIEW'' then 1 else 0) \<rparr>)"
proof -
  from classify_for_note_broker_ok [OF assms, of env] obtain c score why where
    c: "classify_for_note_broker env r = Inr (c, score, why)"
       "c \<in> {''HIGH_PRIORITY'', ''MEDIUM_PRIORITY'', ''LOW_PRIORITY'', ''REVIEW''}"
    by auto
  then have t: "tier_of env r = c" "written_row env r = enrich_target env r score why"
    by (simp_all add: tier_of_def written_row_def)
  from c(2) consider "c = ''HIGH_PRIORITY''" | "c = ''MEDIUM_PRIORITY''" | "c = ''LOW_PRIORITY''" | "c = ''REVIEW''"
    by auto
  then show ?thesis
    by cases (simp_all add: targets_step_def c(1) t)
qed

lemma targets_loop_ok:
  assumes "\<forall>r \<in> set rows. py_int (str_or (row_get r ''property_count'' ''1'') ''1'') \<noteq> None"
  shows "targets_loop env out rows = Inr
     (out\<lparr> high_rows := high_rows out @ map (written_row env) (filter (\<lambda>r. tier_of env r = ''HIGH_PRIORITY'') rows),
           medium_rows := medium_rows out @ map (written_row env) (filter (\<lambda>r. tier_of env r = ''MEDIUM_PRIORITY'') rows),
           low_rows := low_rows out @ map (written_row env) (filter (\<lambda>r. tier_of env r = ''LOW_PRIORITY'') rows),
           review_rows := review_rows out @ map (written_row env) (filter (\<lambda>r. tier_of env r = ''REVIEW'') rows),
           high := high out + length (filter (\<lambda>r. tier_of env r = ''HIGH_PRIORITY'') rows),
           medium := medium out + length (filter (\<lambda>r. tier_of env r = ''MEDIUM_PRIORITY'') rows),
           low := low out + length (filter (\<lambda>r. tier_of env r = ''LOW_PRIORITY'') rows),
           review := review out + length (filter (\<lambda>r. tier_of env r = ''REVIEW'') rows) \<rparr>)"
  using assms
proof (induction rows arbitrary: out)
  case Nil
  then show ?case by simp
next
  case (Cons r rows)
  from Cons.prems have p: "py_int (str_or (row_get r ''property_count'' ''1'') ''1'') \<noteq> None"
    and ps: "\<forall>r \<in> set rows. py_int (str_or (row_get r ''property_count'' ''1'') ''1'') \<noteq> None"
    by simp_all
  show ?case
    by (simp add: targets_step_ok [OF p] Cons.IH [OF ps])
qed

lemma four_filters:
  assumes "\<forall>r \<in> set rows. f r \<in> {a, b, c, d}" and "distinct [a, b, c, d]"
  shows "length (filter (\<lambda>r. f r = a) rows) + length (filter (\<lambda>r. f r = b) rows)
       + length (filter (\<lambda>r. f r = c) rows) + length (filter (\<lambda>r. f r = d) rows) = length rows"
  using assms by (induction rows) auto

text \<open>
  Claim C3, as amended. When the property count of every input row is absent, empty or an
  integer literal, \<open>process_targets_file\<close> returns, and every row is in exactly one of the
  four outputs, chosen by the first rule that fits: \<open>HIGH_PRIORITY\<close> for a contact channel
  and a score of at least 60, else \<open>MEDIUM_PRIORITY\<close> for a score of at least 50, else
  \<open>LOW_PRIORITY\<close> for a score of at least 30, else \<open>REVIEW\<close>. Each output holds the rows of
  its tier in input order, each counter is the length of its output, and the four lengths
  add up to the number of input rows.
\<close>

theorem note_broker_tiers:
  assumes "\<forall>r \<in> set rows. py_int (str_or (row_get r ''property_count'' ''1'') ''1'') \<noteq> None"
  shows "\<exists>out. process_targets_file env rows = Inr out
     \<and> high_rows out = map (written_row env) (filter (\<lambda>r. tier_of env r = ''HIGH_PRIORITY'') rows)
     \<and> medium_rows out = map (written_row env) (filter (\<lambda>r. tier_of env r = ''MEDIUM_PRIORITY'') rows)
     \<and> low_rows out = map (written_row env) (filter (\<lambda>r. tier_of env r = ''LOW_PRIORITY'') rows)
     \<and> review_rows out = map (written_row env) (filter (\<lambda>r. tier_of env r = ''REVIEW'') rows)
     \<and> high out = length (high_rows out) \<and> medium out = length (medium_rows out)
     \<and> low out = length (low_rows out) \<and> review out = length (review_rows out)
     \<and> length (high_rows out) + length (medium_rows out) + length (low_rows out)
         + length (review_rows out) = length rows
     \<and> (\<forall>r \<in> set rows. \<exists>score why.
           calculate_engagement_score env r = Inr (score, why)
           \<and> classify_for_note_broker env r
               = Inr (if (has_email r \<or> has_phone r) \<and> score \<ge> 60 then ''HIGH_PRIORITY''
                      else if score \<ge> 50 then ''MEDIUM_PRIORITY''
                      else if score \<ge> 30 then ''LOW_PRIORITY''
                      else ''REVIEW'', score, why))"
proof -
  have t: "\<forall>r \<in> set rows. tier_of env r \<in> {''HIGH_PRIORITY'', ''MEDIUM_PRIORITY'', ''LOW_PRIORITY'', ''REVIEW''}"
    using assms tier_of_cases by blast
  have d: "distinct [''HIGH_PRIORITY'', ''MEDIUM_PRIORITY'', ''LOW_PRIORITY'', ''REVIEW'']" by simp
  note n = four_filters [OF t d]
  have c: "\<forall>r \<in> set rows. \<exists>score why.
           calculate_engagement_score env r = Inr (score, why)
           \<and> classify_for_note_broker env r
               = Inr (if (has_email r \<or> has_phone r) \<and> score \<ge> 60 then ''HIGH_PRIORITY''
                      else if score \<ge> 50 then ''MEDIUM_PRIORITY''
                      else if score \<ge> 30 then ''LOW_PRIORITY''
                      else ''REVIEW'', score, why)"
    using assms classify_for_note_broker_ok by blast
  show ?thesis
    unfolding process_targets_file_def targets_loop_ok [OF assms]
    using n c by (simp add: targets_start_def)
qed

theorem note_broker_tiers_witness:
  "list_all (\<lambda>r. py_int (str_or (row_get r ''property_count'' ''1'') ''1'') \<noteq> None)
     [[''full_name'' \<mapsto> ''JOHN SMITH'', ''email'' \<mapsto> ''js@example.com'',
       ''mailing_address'' \<mapsto> ''1 Main St'', ''mailing_city'' \<mapsto> ''Dallas'',
       ''situs_city'' \<mapsto> ''Austin'', ''property_count'' \<mapsto> ''2''],
      [''full_name'' \<mapsto> ''SMITH FAMILY TRUST'']]
   \<and> (\<exists>out. process_targets_file example_env
               [[''full_name'' \<mapsto> ''JOHN SMITH'', ''email'' \<mapsto> ''js@example.com'',
                 ''mailing_address'' \<mapsto> ''1 Main St'', ''mailing_city'' \<mapsto> ''Dallas'',
                 ''situs_city'' \<mapsto> ''Austin'', ''property_count'' \<mapsto> ''2''],
                [''full_name'' \<mapsto> ''SMITH FAMILY TRUST'']] = Inr out
          \<and> high out = 1 \<and> medium out = 0 \<and> low out = 0 \<and> review out = 1
          \<and> length (high_rows out) + length (medium_rows out) + length (low_rows out)
              + length (review_rows out) = 2)"
proof -
  let ?r1 = "[''full_name'' \<mapsto> ''JOHN SMITH'', ''email'' \<mapsto> ''js@example.com'',
              ''mailing_address'' \<mapsto> ''1 Main St'', ''mailing_city'' \<mapsto> ''Dallas'',
              ''situs_city'' \<mapsto> ''Austin'', ''property_count'' \<mapsto> ''2'']"
  let ?r2 = "[''full_name'' \<mapsto> ''SMITH FAMILY TRUST'']"
  have h: "\<forall>r \<in> set [?r1, ?r2]. py_int (str_or (row_get r ''property_count'' ''1'') ''1'') \<noteq> None"
    by code_simp
  have t1: "tier_of example_env ?r1 = ''HIGH_PRIORITY''" by code_simp
  have t2: "tier_of example_env ?r2 = ''REVIEW''" by code_simp
  from note_broker_tiers [OF h, of example_env] obtain out where
    o: "process_targets_file example_env [?r1, ?r2] = Inr out"
       "high_rows out = map (written_row example_env) (filter (\<lambda>r. tier_of example_env r = ''HIGH_PRIORITY'') [?r1, ?r2])"
       "medium_rows out = map (written_row example_env) (filter (\<lambda>r. tier_of example_env r = ''MEDIUM_PRIORITY'') [?r1, ?r2])"
       "low_rows out = map (written_row example_env) (filter (\<lambda>r. tier_of example_env r = ''LOW_PRIORITY'') [?r1, ?r2])"
       "review_rows out = map (written_row example_env) (filter (\<lambda>r. tier_of example_env r = ''REVIEW'') [?r1, ?r2])"
       "high out = length (high_rows out)" "medium out = length (medium_rows out)"
       "low out = length (low_rows out)" "review out = length (review_rows out)"
    by blast
  from o(2-5) have "length (high_rows out) = 1" "length (medium_rows out) = 0"
     "length (low_rows out) = 0" "length (review_rows out) = 1"
    by (simp_all add: t1 t2)
  moreover from h have "list_all (\<lambda>r. py_int (str_or (row_get r ''property_count'' ''1'') ''1'') \<noteq> None)
     [?r1, ?r2]"
    unfolding list_all_iff .
  ultimately show ?thesis using o(1,6-9) by simp
qed

text \<open>
  Claim C3 as stated fails on a row whose property count is not an integer literal: the
  conversion raises \<open>ValueError\<close>, the row gets no tier, and the run ends without
  completing its outputs.
\<close>

theorem note_broker_tiers_counterexample:
  "classify_for_note_broker example_env [''full_name'' \<mapsto> ''JOHN SMITH'', ''property_count'' \<mapsto> ''N/A'']
     = Inl ValueError
   \<and> process_targets_file example_env [[''full_name'' \<mapsto> ''JOHN SMITH'', ''property_count'' \<mapsto> ''N/A'']]
     = Inl ValueError"
proof -
  have "py_int (str_or (row_get [''full_name'' \<mapsto> ''JOHN SMITH'', ''property_count'' \<mapsto> ''N/A'']
                   ''property_count'' ''1'') ''1'') = None"
    by code_simp
  then have "classify_for_note_broker example_env [''full_name'' \<mapsto> ''JOHN SMITH'', ''property_count'' \<mapsto> ''N/A'']
     = Inl ValueError"
    by (simp add: classify_for_note_broker_def calculate_engagement_score_def)
  then show ?thesis
    by (simp add: process_targets_file_def targets_step_def)
qed

section \<open>Owner keys and owner groups\<close>

lemma group_add_keys:
  "map fst (group_add k r gs) = (if k \<in> set (map fst gs) then map fst gs else map fst gs @ [k])"
  by (induction gs) force+

lemma group_add_distinct: "distinct (map fst gs) \<Longrightarrow> distinct (map fst (group_add k r gs))"
  by (simp add: group_add_keys)

lemma group_add_map_of:
  "map_of (group_add k r gs) k'
     = (if k' = k then Some ((case map_of gs k of Some rs \<Rightarrow> rs | None \<Rightarrow> []) @ [r])
        else map_of gs k')"
  by (induction gs) auto

lemma owner_groups_snoc:
  "owner_groups (rows @ [r]) = group_add (normalize_owner_key r) r (owner_groups rows)"
  by (simp add: owner_groups_def)

lemma owner_groups_distinct: "distinct (map fst (owner_groups rows))"
proof (induction rows rule: rev_induct)
  case Nil
  show ?case by (simp add: owner_groups_def)
next
  case (snoc r rows)
  then show ?case by (simp only: owner_groups_snoc group_add_distinct)
qed

lemma owner_groups_map_of:
  "map_of (owner_groups rows) k
     = (if k \<in> normalize_owner_key ` set rows
        then Some (filter (\<lambda>r. normalize_owner_key r = k) rows) else None)"
proof (induction rows arbitrary: k rule: rev_induct)
  case Nil
  show ?case by (simp add: owner_groups_def)
next
  case (snoc r rows)
  show ?case
    unfolding owner_groups_snoc group_add_map_of snoc.IH
    by (auto simp: empty_filter_conv filter_empty_conv) (metis imageI)
qed

lemma owner_groups_member:
  "(k, ps) \<in> set (owner_groups rows)
     \<longleftrightarrow> k \<in> normalize_owner_key ` set rows \<and> ps = filter (\<lambda>r. normalize_owner_key r = k) rows"
proof -
  have "(k, ps) \<in> set (owner_groups rows) \<longleftrightarrow> map_of (owner_groups rows) k = Some ps"
    using owner_groups_distinct [of rows] by simp
  then show ?thesis by (auto simp: owner_groups_map_of)
qed

lemma same_group_iff:
  assumes "r1 \<in> set rows" and "r2 \<in> set rows"
  shows "same_group rows r1 r2 \<longleftrightarrow> normalize_owner_key r1 = normalize_owner_key r2"
proof
  assume "same_group rows r1 r2"
  then obtain k ps where g: "(k, ps) \<in> set (owner_groups rows)" "r1 \<in> set ps" "r2 \<in> set ps"
    by (auto simp: same_group_def list_ex_iff)
  then have "ps = filter (\<lambda>r. normalize_owner_key r = k) rows" by (simp add: owner_groups_member)
  with g(2,3) show "normalize_owner_key r1 = normalize_owner_key r2" by simp
next
  assume e: "normalize_owner_key r1 = normalize_owner_key r2"
  let ?k = "normalize_owner_key r1"
  let ?ps = "filter (\<lambda>r. normalize_owner_key r = ?k) rows"
  from assms(1) have "(?k, ?ps) \<in> set (owner_groups rows)" by (simp add: owner_groups_member)
  moreover from assms e have "r1 \<in> set ?ps" "r2 \<in> set ?ps" by simp_all
  ultimately show "same_group rows r1 r2"
    unfolding same_group_def list_ex_iff by force
qed

lemma takeWhile_stop:
  "\<forall>c \<in> set a. P c \<Longrightarrow> \<not> P x \<Longrightarrow> takeWhile P (a @ x # y) = a"
  by (induction a) auto

lemma split_at_bar:
  assumes "CHR ''|'' \<notin> set a" and "CHR ''|'' \<notin> set b" and "a @ ''|'' @ y = b @ ''|'' @ z"
  shows "a = b \<and> y = z"
proof -
  have "takeWhile (\<lambda>c. c \<noteq> CHR ''|'') (a @ CHR ''|'' # y) = a"
    using assms(1) by (intro takeWhile_stop) auto
  moreover have "takeWhile (\<lambda>c. c \<noteq> CHR ''|'') (b @ CHR ''|'' # z) = b"
    using assms(2) by (intro takeWhile_stop) auto
  moreover from assms(3) have "a @ CHR ''|'' # y = b @ CHR ''|'' # z" by simp
  ultimately have "a = b" by simp
  with assms(3) show ?thesis by simp
qed

text \<open>
  Claim C5, as amended. The grouping key of a record is the normalized (stripped,
  upper-cased) name, which is the personal name \<open>full_name\<close> when that is not empty and
  the company name otherwise, followed by a bar and the stripped postal code. Two records
  of the input fall into the same group exactly when their keys are equal. Records that
  agree on that name and the postal code have equal keys; records with equal keys agree on
  both, provided that their names contain no bar.
\<close>

theorem owner_key_grouping:
  "normalize_owner_key r = owner_key_name r @ ''|'' @ strip (row_get r ''mailing_zip'' '''')
   \<and> owner_key_name r = (if upper (strip (row_get r ''full_name'' '''')) \<noteq> []
                          then upper (strip (row_get r ''full_name'' ''''))
                          else upper (strip (row_get r ''company_name'' '''')))
   \<and> (r1 \<in> set rows \<and> r2 \<in> set rows \<longrightarrow>
        (same_group rows r1 r2 \<longleftrightarrow> normalize_owner_key r1 = normalize_owner_key r2))
   \<and> (owner_key_name r1 = owner_key_name r2
        \<and> strip (row_get r1 ''mailing_zip'' '''') = strip (row_get r2 ''mailing_zip'' '''')
        \<longrightarrow> normalize_owner_key r1 = normalize_owner_key r2)
   \<and> (CHR ''|'' \<notin> set (owner_key_name r1) \<and> CHR ''|'' \<notin> set (owner_key_name r2)
        \<and> normalize_owner_key r1 = normalize_owner_key r2
        \<longrightarrow> owner_key_name r1 = owner_key_name r2
            \<and> strip (row_get r1 ''mailing_zip'' '''') = strip (row_get r2 ''mailing_zip'' ''''))"
proof -
  have 1: "normalize_owner_key r = owner_key_name r @ ''|'' @ strip (row_get r ''mailing_zip'' '''')" for r
    by (simp add: normalize_owner_key_def)
  have 2: "owner_key_name r = (if upper (strip (row_get r ''full_name'' '''')) \<noteq> []
                          then upper (strip (row_get r ''full_name'' ''''))
                          else upper (strip (row_get r ''company_name'' '''')))"
    by (simp add: owner_key_name_def Let_def)
  have 3: "r1 \<in> set rows \<and> r2 \<in> set rows \<longrightarrow>
        (same_group rows r1 r2 \<longleftrightarrow> normalize_owner_key r1 = normalize_owner_key r2)"
    using same_group_iff by blast
  have 4: "owner_key_name r1 = owner_key_name r2
        \<and> strip (row_get r1 ''mailing_zip'' '''') = strip (row_get r2 ''mailing_zip'' '''')
        \<longrightarrow> normalize_owner_key r1 = normalize_owner_key r2"
    by (simp add: 1)
  have 5: "CHR ''|'' \<notin> set (owner_key_name r1) \<and> CHR ''|'' \<notin> set (owner_key_name r2)
        \<and> normalize_owner_key r1 = normalize_owner_key r2
        \<longrightarrow> owner_key_name r1 = owner_key_name r2
            \<and> strip (row_get r1 ''mailing_zip'' '''') = strip (row_get r2 ''mailing_zip'' '''')"
    unfolding 1 using split_at_bar by blast
  from 1 2 3 4 5 show ?thesis by blast
qed

theorem owner_key_grouping_witness:
  "same_group
     [[''full_name'' \<mapsto> ''John Smith'', ''mailing_zip'' \<mapsto> ''78701'', ''tcad_account_id'' \<mapsto> ''100''],
      [''full_name'' \<mapsto> '' JOHN SMITH '', ''mailing_zip'' \<mapsto> ''78701 '', ''tcad_account_id'' \<mapsto> ''200'']]
     [''full_name'' \<mapsto> ''John Smith'', ''mailing_zip'' \<mapsto> ''78701'', ''tcad_account_id'' \<mapsto> ''100'']
     [''full_name'' \<mapsto> '' JOHN SMITH '', ''mailing_zip'' \<mapsto> ''78701 '', ''tcad_account_id'' \<mapsto> ''200'']
   \<and> normalize_owner_key [''full_name'' \<mapsto> ''John Smith'', ''mailing_zip'' \<mapsto> ''78701'', ''tcad_account_id'' \<mapsto> ''100'']
       = ''JOHN SMITH|78701''
   \<and> CHR ''|'' \<notin> set (owner_key_name
         [''full_name'' \<mapsto> ''John Smith'', ''mailing_zip'' \<mapsto> ''78701'', ''tcad_account_id'' \<mapsto> ''100''])"
proof -
  let ?r1 = "[''full_name'' \<mapsto> ''John Smith'', ''mailing_zip'' \<mapsto> ''78701'', ''tcad_account_id'' \<mapsto> ''100'']"
  let ?r2 = "[''full_name'' \<mapsto> '' JOHN SMITH '', ''mailing_zip'' \<mapsto> ''78701 '', ''tcad_account_id'' \<mapsto> ''200'']"
  have n: "owner_key_name ?r1 = ''JOHN SMITH''" "owner_key_name ?r2 = ''JOHN SMITH''"
    by code_simp+
  have z: "strip (row_get ?r1 ''mailing_zip'' '''') = ''78701''" "strip (row_get ?r2 ''mailing_zip'' '''') = ''78701''"
    by code_simp+
  have m: "?r1 \<in> set [?r1, ?r2] \<and> ?r2 \<in> set [?r1, ?r2]" by simp
  note t = owner_key_grouping [of ?r1 ?r1 "[?r1, ?r2]" ?r2]
  from t [THEN conjunct1] n(1) z(1) have k: "normalize_owner_key ?r1 = ''JOHN SMITH|78701''"
    by simp
  from t [THEN conjunct2, THEN conjunct2, THEN conjunct2, THEN conjunct1] n z
  have e: "normalize_owner_key ?r1 = normalize_owner_key ?r2" by simp
  from t [THEN conjunct2, THEN conjunct2, THEN conjunct1] m e
  have "same_group [?r1, ?r2] ?r1 ?r2" by blast
  moreover from n(1) have "CHR ''|'' \<notin> set (owner_key_name ?r1)" by simp
  ultimately show ?thesis using k by blast
qed

text \<open>
  Claim C5 as stated fails. Two records with the same company name and postal code but
  different personal names agree on the key that prefers the company name, and the code
  puts them into different groups. And two records that differ in name and postal code
  can share a key, and so a group, when a bar occurs in them.
\<close>

theorem owner_key_claim_counterexample:
  "claimed_owner_key [''full_name'' \<mapsto> ''John Smith'', ''company_name'' \<mapsto> ''Acme LLC'', ''mailing_zip'' \<mapsto> ''78701'']
     = ''ACME LLC|78701''
   \<and> claimed_owner_key [''full_name'' \<mapsto> ''Jane Doe'', ''company_name'' \<mapsto> ''Acme LLC'', ''mailing_zip'' \<mapsto> ''78701'']
     = ''ACME LLC|78701''
   \<and> owner_groups
       [[''full_name'' \<mapsto> ''John Smith'', ''company_name'' \<mapsto> ''Acme LLC'', ''mailing_zip'' \<mapsto> ''78701''],
        [''full_name'' \<mapsto> ''Jane Doe'', ''company_name'' \<mapsto> ''Acme LLC'', ''mailing_zip'' \<mapsto> ''78701'']]
     = [(''JOHN SMITH|78701'',
          [[''full_name'' \<mapsto> ''John Smith'', ''company_name'' \<mapsto> ''Acme LLC'', ''mailing_zip'' \<mapsto> ''78701'']]),
        (''JANE DOE|78701'',
          [[''full_name'' \<mapsto> ''Jane Doe'', ''company_name'' \<mapsto> ''Acme LLC'', ''mailing_zip'' \<mapsto> ''78701'']])]
   \<and> owner_key_name [''full_name'' \<mapsto> ''A|B''] = ''A|B''
   \<and> owner_key_name [''full_name'' \<mapsto> ''A'', ''mailing_zip'' \<mapsto> ''B|''] = ''A''
   \<and> owner_groups [[''full_name'' \<mapsto> ''A|B''], [''full_name'' \<mapsto> ''A'', ''mailing_zip'' \<mapsto> ''B|'']]
     = [(''A|B|'', [[''full_name'' \<mapsto> ''A|B''], [''full_name'' \<mapsto> ''A'', ''mailing_zip'' \<mapsto> ''B|'']])]"
proof -
  let ?r1 = "[''full_name'' \<mapsto> ''John Smith'', ''company_name'' \<mapsto> ''Acme LLC'', ''mailing_zip'' \<mapsto> ''78701'']"
  let ?r2 = "[''full_name'' \<mapsto> ''Jane Doe'', ''company_name'' \<mapsto> ''Acme LLC'', ''mailing_zip'' \<mapsto> ''78701'']"
  let ?r3 = "[''full_name'' \<mapsto> ''A|B'']"
  let ?r4 = "[''full_name'' \<mapsto> ''A'', ''mailing_zip'' \<mapsto> ''B|'']"
  have c: "claimed_owner_key ?r1 = ''ACME LLC|78701''" "claimed_owner_key ?r2 = ''ACME LLC|78701''"
    by code_simp+
  have k: "normalize_owner_key ?r1 = ''JOHN SMITH|78701''" "normalize_owner_key ?r2 = ''JANE DOE|78701''"
          "normalize_owner_key ?r3 = ''A|B|''" "normalize_owner_key ?r4 = ''A|B|''"
    by code_simp+
  have n: "owner_key_name ?r3 = ''A|B''" "owner_key_name ?r4 = ''A''"
    by code_simp+
  have g1: "owner_groups [?r1, ?r2] = [(''JOHN SMITH|78701'', [?r1]), (''JANE DOE|78701'', [?r2])]"
    by (simp add: owner_groups_def k)
  have g2: "owner_groups [?r3, ?r4] = [(''A|B|'', [?r3, ?r4])]"
    by (simp add: owner_groups_def k)
  from c n g1 g2 show ?thesis by simp
qed

section \<open>The score of an owner group\<close>








section \<open>The enrichment merge\<close>

lemma merge_step_rows:
  "merged_rows (merge_step lk out r) = merged_rows out @ [merge_row lk r]"
  by (simp add: merge_step_def merge_row_def merge_start_def Let_def split: option.splits prod.splits)

lemma merge_step_counts:
  "total_rows (merge_step lk out r) = total_rows out + 1"
  "matched (merge_step lk out r)
     = matched out + (if lk (strip (row_get r ''lead_id'' '''')) \<noteq> None then 1 else 0)"
  "unmatched (merge_step lk out r)
     = unmatched out + (if lk (strip (row_get r ''lead_id'' '''')) = None then 1 else 0)"
  by (simp_all add: merge_step_def Let_def split: option.splits prod.splits)

lemma merge_fold:
  "merged_rows (foldl (merge_step lk) out leads) = merged_rows out @ map (merge_row lk) leads
   \<and> total_rows (foldl (merge_step lk) out leads) = total_rows out + length leads
   \<and> matched (foldl (merge_step lk) out leads)
       = matched out + length (filter (\<lambda>r. lk (strip (row_get r ''lead_id'' '''')) \<noteq> None) leads)
   \<and> unmatched (foldl (merge_step lk) out leads)
       = unmatched out + length (filter (\<lambda>r. lk (strip (row_get r ''lead_id'' '''')) = None) leads)"
proof (induction leads arbitrary: out)
  case Nil
  show ?case by simp
next
  case (Cons r leads)
  show ?case
    by (simp add: Cons.IH [of "merge_step lk out r"] merge_step_rows merge_step_counts)
qed

lemma merge_row_unmatched:
  assumes "lk (strip (row_get r ''lead_id'' '''')) = None"
  shows "merge_row lk r ''email'' = Some (row_get r ''email'' '''')"
    and "merge_row lk r ''phone'' = Some (row_get r ''phone'' '''')"
    and "k \<noteq> ''email'' \<Longrightarrow> k \<noteq> ''phone'' \<Longrightarrow> merge_row lk r k = r k"
  using assms
  by (auto simp: merge_row_def merge_step_def merge_start_def fill_blank_def row_get_def Let_def
           split: option.splits)

lemma merge_row_matched:
  assumes "lk (strip (row_get r ''lead_id'' '''')) = Some e"
  shows "merge_row lk r ''email''
           = Some (if strip (row_get e ''email'' '''') \<noteq> [] then strip (row_get e ''email'' '''')
                   else row_get r ''email'' '''')"
    and "merge_row lk r ''phone''
           = Some (if strip (row_get e ''phone'' '''') \<noteq> [] then strip (row_get e ''phone'' '''')
                   else row_get r ''phone'' '''')"
    and "k \<noteq> ''email'' \<Longrightarrow> k \<noteq> ''phone'' \<Longrightarrow> merge_row lk r k = r k"
  using assms
  by (auto simp: merge_row_def merge_step_def merge_start_def fill_blank_def row_get_def Let_def
           split: option.splits)

text \<open>
  Claim C9. For every list of leads and every enrichment lookup (the empty one too),
  \<open>merge_enrichment\<close> writes exactly one row for each lead, in order, so the number of
  output rows is the number of input rows; \<open>total_rows\<close> is that number, and the matched
  and unmatched counters add up to it. A lead whose stripped \<open>lead_id\<close> is not in the
  lookup counts as unmatched and is written with its own email and phone, or with the
  empty string where it has none. A matched lead gets the stripped email and phone of its
  enrichment row where these are not empty, and keeps its own (or the empty string)
  otherwise. No other cell changes.
\<close>

theorem merge_keeps_every_row:
  "merge_enrichment leads enrichment = merge_rows (load_enrichment_results enrichment) leads
   \<and> length (merged_rows (merge_rows lk leads)) = length leads
   \<and> total_rows (merge_rows lk leads) = length leads
   \<and> matched (merge_rows lk leads) + unmatched (merge_rows lk leads) = length leads
   \<and> unmatched (merge_rows lk leads)
       = length (filter (\<lambda>r. lk (strip (row_get r ''lead_id'' '''')) = None) leads)
   \<and> (\<forall>i < length leads.
        (\<forall>k. k \<noteq> ''email'' \<and> k \<noteq> ''phone'' \<longrightarrow> (merged_rows (merge_rows lk leads) ! i) k = (leads ! i) k)
        \<and> (lk (strip (row_get (leads ! i) ''lead_id'' '''')) = None \<longrightarrow>
             (merged_rows (merge_rows lk leads) ! i) ''email'' = Some (row_get (leads ! i) ''email'' '''')
             \<and> (merged_rows (merge_rows lk leads) ! i) ''phone'' = Some (row_get (leads ! i) ''phone'' ''''))
        \<and> (\<forall>e. lk (strip (row_get (leads ! i) ''lead_id'' '''')) = Some e \<longrightarrow>
             (merged_rows (merge_rows lk leads) ! i) ''email''
               = Some (if strip (row_get e ''email'' '''') \<noteq> [] then strip (row_get e ''email'' '''')
                       else row_get (leads ! i) ''email'' '''')
             \<and> (merged_rows (merge_rows lk leads) ! i) ''phone''
               = Some (if strip (row_get e ''phone'' '''') \<noteq> [] then strip (row_get e ''phone'' '''')
                       else row_get (leads ! i) ''phone'' '''')))"
proof -
  note f = merge_fold [of lk merge_start leads]
  have rows: "merged_rows (merge_rows lk leads) = map (merge_row lk) leads"
    using f by (simp add: merge_rows_def merge_start_def)
  have t: "total_rows (merge_rows lk leads) = length leads"
    using f by (simp add: merge_rows_def merge_start_def)
  have m: "matched (merge_rows lk leads)
       = length (filter (\<lambda>r. lk (strip (row_get r ''lead_id'' '''')) \<noteq> None) leads)"
    using f by (simp add: merge_rows_def merge_start_def)
  have u: "unmatched (merge_rows lk leads)
       = length (filter (\<lambda>r. lk (strip (row_get r ''lead_id'' '''')) = None) leads)"
    using f by (simp add: merge_rows_def merge_start_def)
  have mu: "matched (merge_rows lk leads) + unmatched (merge_rows lk leads) = length leads"
    unfolding m u using sum_length_filter_compl [of "\<lambda>r. lk (strip (row_get r ''lead_id'' '''')) \<noteq> None" leads]
    by simp
  have each: "(\<forall>k. k \<noteq> ''email'' \<and> k \<noteq> ''phone'' \<longrightarrow> (merged_rows (merge_rows lk leads) ! i) k = (leads ! i) k)
        \<and> (lk (strip (row_get (leads ! i) ''lead_id'' '''')) = None \<longrightarrow>
             (merged_rows (merge_rows lk leads) ! i) ''email'' = Some (row_get (leads ! i) ''email'' '''')
             \<and> (merged_rows (merge_rows lk leads) ! i) ''phone'' = Some (row_get (leads ! i) ''phone'' ''''))
        \<and> (\<forall>e. lk (strip (row_get (leads ! i) ''lead_id'' '''')) = Some e \<longrightarrow>
             (merged_rows (merge_rows lk leads) ! i) ''email''
               = Some (if strip (row_get e ''email'' '''') \<noteq> [] then strip (row_get e ''email'' '''')
                       else row_get (leads ! i) ''email'' '''')
             \<and> (merged_rows (merge_rows lk leads) ! i) ''phone''
               = Some (if strip (row_get e ''phone'' '''') \<noteq> [] then strip (row_get e ''phone'' '''')
                       else row_get (leads ! i) ''phone'' ''''))"
    if i: "i < length leads" for i
  proof -
    from i rows have r: "merged_rows (merge_rows lk leads) ! i = merge_row lk (leads ! i)" by simp
    show ?thesis
    proof (cases "lk (strip (row_get (leads ! i) ''lead_id'' ''''))")
      case None
      from merge_row_unmatched [of lk "leads ! i", OF None] None show ?thesis unfolding r by simp
    next
      case (Some e)
      from merge_row_matched [of lk "leads ! i" e, OF Some] Some show ?thesis unfolding r by simp
    qed
  qed
  have d: "merge_enrichment leads enrichment = merge_rows (load_enrichment_results enrichment) leads"
    by (simp add: merge_enrichment_def)
  from rows have n: "length (merged_rows (merge_rows lk leads)) = length leads" by simp
  from d n t mu u each show ?thesis by blast
qed

theorem merge_keeps_every_row_witness:
  "length (merged_rows (merge_enrichment
       [[''lead_id'' \<mapsto> ''abc'', ''full_name'' \<mapsto> ''JOHN SMITH''],
        [''lead_id'' \<mapsto> ''def'', ''email'' \<mapsto> ''old@example.org'']]
       [[''lead_id'' \<mapsto> '' abc '', ''email'' \<mapsto> ''js@example.com'', ''phone'' \<mapsto> '' '']])) = 2
   \<and> unmatched (merge_enrichment
       [[''lead_id'' \<mapsto> ''abc'', ''full_name'' \<mapsto> ''JOHN SMITH''],
        [''lead_id'' \<mapsto> ''def'', ''email'' \<mapsto> ''old@example.org'']]
       [[''lead_id'' \<mapsto> '' abc '', ''email'' \<mapsto> ''js@example.com'', ''phone'' \<mapsto> '' '']]) = 1
   \<and> (merged_rows (merge_enrichment
       [[''lead_id'' \<mapsto> ''abc'', ''full_name'' \<mapsto> ''JOHN SMITH''],
        [''lead_id'' \<mapsto> ''def'', ''email'' \<mapsto> ''old@example.org'']]
       [[''lead_id'' \<mapsto> '' abc '', ''email'' \<mapsto> ''js@example.com'', ''phone'' \<mapsto> '' '']]) ! 0) ''email''
       = Some ''js@example.com''
   \<and> (merged_rows (merge_enrichment
       [[''lead_id'' \<mapsto> ''abc'', ''full_name'' \<mapsto> ''JOHN SMITH''],
        [''lead_id'' \<mapsto> ''def'', ''email'' \<mapsto> ''old@example.org'']]
       [[''lead_id'' \<mapsto> '' abc '', ''email'' \<mapsto> ''js@example.com'', ''phone'' \<mapsto> '' '']]) ! 0) ''phone''
       = Some ''''
   \<and> (merged_rows (merge_enrichment
       [[''lead_id'' \<mapsto> ''abc'', ''full_name'' \<mapsto> ''JOHN SMITH''],
        [''lead_id'' \<mapsto> ''def'', ''email'' \<mapsto> ''old@example.org'']]
       [[''lead_id'' \<mapsto> '' abc '', ''email'' \<mapsto> ''js@example.com'', ''phone'' \<mapsto> '' '']]) ! 1) ''email''
       = Some ''old@example.org''
   \<and> (merged_rows (merge_enrichment
       [[''lead_id'' \<mapsto> ''abc'', ''full_name'' \<mapsto> ''JOHN SMITH''],
        [''lead_id'' \<mapsto> ''def'', ''email'' \<mapsto> ''old@example.org'']]
       [[''lead_id'' \<mapsto> '' abc '', ''email'' \<mapsto> ''js@example.com'', ''phone'' \<mapsto> '' '']]) ! 1) ''phone''
       = Some ''''"
proof -
  let ?l1 = "[''lead_id'' \<mapsto> ''abc'', ''full_name'' \<mapsto> ''JOHN SMITH'']"
  let ?l2 = "[''lead_id'' \<mapsto> ''def'', ''email'' \<mapsto> ''old@example.org'']"
  let ?e = "[''lead_id'' \<mapsto> '' abc '', ''email'' \<mapsto> ''js@example.com'', ''phone'' \<mapsto> '' '']"
  let ?lk = "load_enrichment_results [?e]"
  have ids: "strip (row_get ?l1 ''lead_id'' '''') = ''abc''" "strip (row_get ?l2 ''lead_id'' '''') = ''def''"
    "strip (row_get ?e ''lead_id'' '''') = ''abc''"
    by code_simp+
  have lk: "?lk ''abc'' = Some ?e" "?lk ''def'' = None"
    by (simp_all add: load_enrichment_results_def ids)
  have cells: "strip (row_get ?e ''email'' '''') = ''js@example.com''" "strip (row_get ?e ''phone'' '''') = ''''"
    "row_get ?l1 ''phone'' '''' = ''''" "row_get ?l2 ''email'' '''' = ''old@example.org''"
    "row_get ?l2 ''phone'' '''' = ''''"
    by code_simp+
  note t = merge_keeps_every_row [of "[?l1, ?l2]" "[?e]" ?lk]
  from t have d: "merge_enrichment [?l1, ?l2] [?e] = merge_rows ?lk [?l1, ?l2]" by blast
  from t have n: "length (merged_rows (merge_rows ?lk [?l1, ?l2])) = length [?l1, ?l2]" by blast
  from t have u: "unmatched (merge_rows ?lk [?l1, ?l2])
       = length (filter (\<lambda>r. ?lk (strip (row_get r ''lead_id'' '''')) = None) [?l1, ?l2])" by blast
  from t have r0: "\<forall>e. ?lk (strip (row_get ([?l1, ?l2] ! 0) ''lead_id'' '''')) = Some e \<longrightarrow>
             (merged_rows (merge_rows ?lk [?l1, ?l2]) ! 0) ''email''
               = Some (if strip (row_get e ''email'' '''') \<noteq> [] then strip (row_get e ''email'' '''')
                       else row_get ([?l1, ?l2] ! 0) ''email'' '''')
             \<and> (merged_rows (merge_rows ?lk [?l1, ?l2]) ! 0) ''phone''
               = Some (if strip (row_get e ''phone'' '''') \<noteq> [] then strip (row_get e ''phone'' '''')
                       else row_get ([?l1, ?l2] ! 0) ''phone'' '''')"
    by simp
  from t have r1: "?lk (strip (row_get ([?l1, ?l2] ! 1) ''lead_id'' '''')) = None \<longrightarrow>
             (merged_rows (merge_rows ?lk [?l1, ?l2]) ! 1) ''email'' = Some (row_get ([?l1, ?l2] ! 1) ''email'' '''')
             \<and> (merged_rows (merge_rows ?lk [?l1, ?l2]) ! 1) ''phone'' = Some (row_get ([?l1, ?l2] ! 1) ''phone'' '''')"
    by simp
  have i: "[?l1, ?l2] ! 0 = ?l1" "[?l1, ?l2] ! 1 = ?l2" by simp_all
  from r0 have a: "(merged_rows (merge_rows ?lk [?l1, ?l2]) ! 0) ''email'' = Some ''js@example.com''
      \<and> (merged_rows (merge_rows ?lk [?l1, ?l2]) ! 0) ''phone'' = Some ''''"
    by (simp add: ids lk cells)
  from r1 have b: "(merged_rows (merge_rows ?lk [?l1, ?l2]) ! 1) ''email'' = Some ''old@example.org''
      \<and> (merged_rows (merge_rows ?lk [?l1, ?l2]) ! 1) ''phone'' = Some ''''"
    by (simp add: ids lk cells)
  from u have u1: "unmatched (merge_rows ?lk [?l1, ?l2]) = 1"
    by (simp add: ids lk)
  from n u1 a b show ?thesis unfolding d by simp
qed

section \<open>Short fixed-width lines\<close>
















end
